theory Spec2Isabelle
  imports Main
begin

section \<open>Python values used by the storefront analyzer\<close>

text \<open>
  A Python \<open>str\<close> is a sequence of Unicode code points, so a string is a list of code
  points here (\<open>len\<close> and slicing count code points). The status labels of the source
  carry code points beyond ASCII, which this keeps exact. \<open>ascii\<close> reads an ASCII literal.
\<close>

type_synonym pystr = "nat list"

definition ascii :: "string \<Rightarrow> pystr" where
  "ascii s = map of_char s"

text \<open>
  \<open>str(n)\<close> for a Python int: decimal digits, most significant first, with a leading
  minus sign for a negative number.
\<close>

fun digits :: "nat \<Rightarrow> pystr" where
  "digits n = (if n < 10 then [48 + n] else digits (n div 10) @ [48 + n mod 10])"

declare digits.simps [simp del]

definition str_int :: "int \<Rightarrow> pystr" where
  "str_int i = (if i < 0 then 45 # digits (nat (- i)) else digits (nat i))"

text \<open>
  \<open>str.upper()\<close>: an ASCII lower-case letter goes to its upper-case letter and every
  other ASCII code point stays. Python's mapping of a code point beyond ASCII (which may
  give several code points) belongs to the runtime, not to the repository, and is taken as
  the parameter \<open>uc\<close>.
\<close>

definition upper_cp :: "(nat \<Rightarrow> pystr) \<Rightarrow> nat \<Rightarrow> pystr" where
  "upper_cp uc c = (if 97 \<le> c \<and> c \<le> 122 then [c - 32] else if c < 128 then [c] else uc c)"

definition upper :: "(nat \<Rightarrow> pystr) \<Rightarrow> pystr \<Rightarrow> pystr" where
  "upper uc s = concat (map (upper_cp uc) s)"

text \<open>
  A Python float, an IEEE 754 double: its sign (\<open>True\<close> for a negative number), its
  mantissa \<open>m\<close> and its exponent \<open>e\<close>, with the value \<open>m * 2 ^ e\<close>.
\<close>

type_synonym pyfloat = "bool \<times> nat \<times> int"

text \<open>A value that the source holds either as an int or as a string.\<close>

datatype pyval = IntVal int | StrVal pystr

section \<open>Raw snapshots and product records\<close>

text \<open>
  A raw snapshot is the dict that the catalog provider returns for one identifier. Its
  fields are typed as the provider documents them; \<open>None\<close> is a key that is absent.
  \<open>stats\<close> holds the dict under the key \<open>stats\<close>, and \<open>current\<close> the list under its key
  \<open>current\<close>.
\<close>

record stats_dict =
  current :: "int list option"

record raw_product =
  raw_asin :: "pystr option"
  raw_title :: "pystr option"
  raw_brand :: "pystr option"
  rootCategory :: "int option"
  stats :: "stats_dict option"
  image :: "pystr option"
  imagesCSV :: "pystr option"
  rating :: "int option"
  reviewCount :: "int option"

text \<open>
  The dict \<open>details\<close> that \<open>get_product_details_batch\<close> builds. Its \<open>category_id\<close>
  is the snapshot's \<open>rootCategory\<close>, an int, or the string \<open>'N/A'\<close> when the snapshot
  has none: the type \<open>category\<close>, with \<open>str_category\<close> for \<open>str(cid)\<close>. \<open>rating_value\<close> is
  the float \<open>rating / 10.0\<close>; \<open>category_name\<close> is \<open>None\<close> until the category is
  resolved.
\<close>

datatype category = CategoryId int | NotAvailable

fun str_category :: "category \<Rightarrow> pystr" where
  "str_category (CategoryId c) = str_int c"
| "str_category NotAvailable = ascii ''N/A''"

record details =
  asin :: pystr
  title :: pystr
  brand :: pystr
  category_id :: category
  category_name :: "pystr option"
  sales_rank :: int
  rating_value :: pyfloat
  review_count :: int
  rating_display :: pystr
  current_price :: pystr
  image_url :: "pystr option"

text \<open>Exceptions, with \<open>str(e)\<close> as the source reads it into its messages.\<close>

datatype exn = IndexError | OverflowError pystr | Upstream pystr | RuntimeError pystr

fun str_exn :: "exn \<Rightarrow> pystr" where
  "str_exn IndexError = ascii ''list index out of range''"
| "str_exn (OverflowError m) = m"
| "str_exn (Upstream m) = m"
| "str_exn (RuntimeError m) = m"

text \<open>\<open>xs[i]\<close> for a constant index \<open>i \<ge> 0\<close>: out of range raises \<open>IndexError\<close>.\<close>

definition py_index :: "int list \<Rightarrow> nat \<Rightarrow> exn + int" where
  "py_index xs i = (if i < length xs then Inr (xs ! i) else Inl IndexError)"

subsection \<open>Floats\<close>

text \<open>
  The source makes floats from ints, \<open>cents / 100\<close> and \<open>rating / 10.0\<close>, and formats
  them with \<open>:.2f\<close> and \<open>:.1f\<close>. Zero has the mantissa 0, and every other double that
  the source can make is normal, so \<open>2 ^ 52 \<le> m < 2 ^ 53\<close>.
\<close>

fun bitlen :: "nat \<Rightarrow> nat" where
  "bitlen n = (if n = 0 then 0 else Suc (bitlen (n div 2)))"

declare bitlen.simps [simp del]

text \<open>The integer nearest to \<open>n / d\<close>, the even one of two that are equally near.\<close>

definition rne_div :: "nat \<Rightarrow> nat \<Rightarrow> nat" where
  "rne_div n d =
     (let q = n div d; r = n mod d
      in if 2 * r < d then q
         else if d < 2 * r then q + 1
         else if even q then q else q + 1)"

text \<open>Numerator and denominator of \<open>n / d / 2 ^ e\<close>.\<close>

definition scaled :: "nat \<Rightarrow> nat \<Rightarrow> int \<Rightarrow> nat \<times> nat" where
  "scaled n d e = (if 0 \<le> e then (n, d * 2 ^ nat e) else (n * 2 ^ nat (- e), d))"

text \<open>
  The double nearest to the ratio \<open>n / d\<close> of two positive integers (round to nearest,
  ties to even), as mantissa and exponent: what the true division of two ints and the
  conversion of an int give. \<open>None\<close> when the rounded value is beyond the doubles, which is
  where Python raises \<open>OverflowError\<close>. The exponent is chosen from the bit lengths so that
  the scaled ratio lies between \<open>2 ^ 52\<close> and \<open>2 ^ 53\<close>.
\<close>

definition to_double :: "nat \<Rightarrow> nat \<Rightarrow> (nat \<times> int) option" where
  "to_double n d =
     (let e0 = int (bitlen n) - int (bitlen d) - 53;
          e = (if 2 ^ 53 * snd (scaled n d e0) \<le> fst (scaled n d e0) then e0 + 1 else e0);
          m = rne_div (fst (scaled n d e)) (snd (scaled n d e));
          me = (if m = 2 ^ 53 then (2 ^ 52, e + 1) else (m, e))
      in if 972 \<le> snd me then None else Some me)"

text \<open>
  \<open>units u x\<close> is the integer nearest to \<open>u\<close> times the double \<open>x\<close> (ties to even): the
  correctly rounded number of hundredths or tenths that \<open>:.2f\<close> and \<open>:.1f\<close> print.
\<close>

definition units :: "nat \<Rightarrow> nat \<times> int \<Rightarrow> nat" where
  "units u x =
     (let m = fst x; e = snd x
      in if 0 \<le> e then m * 2 ^ nat e * u else rne_div (m * u) (2 ^ nat (- e)))"

definition digit :: "nat \<Rightarrow> nat" where
  "digit d = 48 + d mod 10"

text \<open>\<open>f'{x:.2f}'\<close> and \<open>f'{x:.1f}'\<close> for a double \<open>x\<close>.\<close>

definition fmt_2f :: "pyfloat \<Rightarrow> pystr" where
  "fmt_2f x =
     (let n = units 100 (snd x)
      in (if fst x then [45] else []) @ digits (n div 100) @ [46, digit (n div 10), digit n])"

definition fmt_1f :: "pyfloat \<Rightarrow> pystr" where
  "fmt_1f x =
     (let n = units 10 (snd x)
      in (if fst x then [45] else []) @ digits (n div 10) @ [46, digit n])"

text \<open>
  \<open>cents / 100\<close> for positive cents: the true division of two ints, correctly rounded;
  it raises when the quotient is too large for a float.
\<close>

definition cents_to_price :: "int \<Rightarrow> exn + pyfloat" where
  "cents_to_price cents =
     (case to_double (nat cents) 100 of
        None \<Rightarrow> Inl (OverflowError (ascii ''integer division result too large for a float''))
      | Some x \<Rightarrow> Inr (False, x))"

text \<open>
  \<open>rating / 10.0\<close>: the int is converted to a float, which raises when it is too large,
  and the float is divided by ten, correctly rounded.
\<close>

definition rating_to_float :: "int \<Rightarrow> exn + pyfloat" where
  "rating_to_float r =
     (if r = 0 then Inr (False, 0, 0)
      else
        (case to_double (nat \<bar>r\<bar>) 1 of
           None \<Rightarrow> Inl (OverflowError (ascii ''int too large to convert to float''))
         | Some x \<Rightarrow>
            (case to_double (fst (scaled (fst x) 10 (- snd x))) (snd (scaled (fst x) 10 (- snd x))) of
               None \<Rightarrow> Inl (OverflowError (ascii ''int too large to convert to float''))
             | Some y \<Rightarrow> Inr (r < 0, y))))"

text \<open>\<open>fmt_thousands\<close> is \<open>{n:,}\<close> for an int.\<close>

fun group3 :: "nat \<Rightarrow> pystr" where
  "group3 n =
     (if n < 1000 then digits n
      else group3 (n div 1000) @ [44, digit (n div 100), digit (n div 10), digit n])"

declare group3.simps [simp del]

definition fmt_thousands :: "int \<Rightarrow> pystr" where
  "fmt_thousands i = (if i < 0 then 45 # group3 (nat (- i)) else group3 (nat i))"

subsection \<open>The attribute extractor\<close>

text \<open>
  The body of the loop of \<open>get_product_details_batch\<close> for a snapshot that has an
  \<open>asin\<close>. \<open>current_data\<close> is \<open>stats.get('current', [0]*25)\<close> with \<open>stats\<close> defaulting to
  the empty dict.
\<close>

definition current_data :: "raw_product \<Rightarrow> int list" where
  "current_data product =
     (case stats product of
        None \<Rightarrow> replicate 25 0
      | Some st \<Rightarrow> (case current st of None \<Rightarrow> replicate 25 0 | Some cur \<Rightarrow> cur))"

text \<open>
  The image URL: the field \<open>image\<close> when it is truthy (a non-empty string), otherwise the
  first comma-separated segment of \<open>imagesCSV\<close> under the CDN prefix.
\<close>

definition truthy_str :: "pystr option \<Rightarrow> bool" where
  "truthy_str v = (case v of None \<Rightarrow> False | Some s \<Rightarrow> s \<noteq> [])"

definition extract_image_url :: "raw_product \<Rightarrow> pystr option" where
  "extract_image_url product =
     (if truthy_str (image product) then image product
      else if truthy_str (imagesCSV product) then
        Some (ascii ''https://m.media-amazon.com/images/I/''
              @ takeWhile (\<lambda>c. c \<noteq> 44) (the (imagesCSV product)))
      else None)"

text \<open>
  The price chain reads the slots 0, 13, 7 and 1 of \<open>current_data\<close> in this order and
  stops at the first strictly positive one; a slot is read only when every slot before it
  was not positive, and reading a slot beyond the list raises.
\<close>

definition current_price_cents :: "int list \<Rightarrow> exn + int" where
  "current_price_cents cur =
     (case py_index cur 0 of Inl e \<Rightarrow> Inl e | Inr c0 \<Rightarrow>
      if c0 > 0 then Inr c0 else
     (case py_index cur 13 of Inl e \<Rightarrow> Inl e | Inr c13 \<Rightarrow>
      if c13 > 0 then Inr c13 else
     (case py_index cur 7 of Inl e \<Rightarrow> Inl e | Inr c7 \<Rightarrow>
      if c7 > 0 then Inr c7 else
     (case py_index cur 1 of Inl e \<Rightarrow> Inl e | Inr c1 \<Rightarrow>
      if c1 > 0 then Inr c1 else Inr 0))))"

text \<open>
  \<open>current_price\<close> is \<open>cents / 100\<close> when the cents are positive and \<open>None\<close> otherwise.
  The formatted price tests its truthiness, which holds for the quotient of positive
  cents, and is the string \<open>N/A\<close> for \<open>None\<close>.
\<close>

definition current_price_of :: "int \<Rightarrow> exn + pyfloat option" where
  "current_price_of cents =
     (if cents > 0 then
        (case cents_to_price cents of Inl e \<Rightarrow> Inl e | Inr x \<Rightarrow> Inr (Some x))
      else Inr None)"

definition format_price :: "pyfloat option \<Rightarrow> pystr" where
  "format_price p = (case p of None \<Rightarrow> ascii ''N/A'' | Some x \<Rightarrow> 36 # fmt_2f x)"

definition extract_sales_rank :: "int list \<Rightarrow> int option" where
  "extract_sales_rank cur = (if length cur > 3 \<and> cur ! 3 > 0 then Some (cur ! 3) else None)"

text \<open>\<open>sales_rank or 0\<close>.\<close>

definition or_zero :: "int option \<Rightarrow> int" where
  "or_zero r = (case r of None \<Rightarrow> 0 | Some v \<Rightarrow> if v \<noteq> 0 then v else 0)"

definition extract_details :: "pystr \<Rightarrow> raw_product \<Rightarrow> exn + details" where
  "extract_details a product =
     (let cur = current_data product;
          image_url = extract_image_url product
      in case current_price_cents cur of
           Inl e \<Rightarrow> Inl e
         | Inr cents \<Rightarrow>
      (case current_price_of cents of
           Inl e \<Rightarrow> Inl e
         | Inr price \<Rightarrow>
      (let sales_rank = extract_sales_rank cur
       in case (case rating product of None \<Rightarrow> Inr (False, 0, 0) | Some r \<Rightarrow> rating_to_float r) of
            Inl e \<Rightarrow> Inl e
          | Inr rating_float \<Rightarrow>
            (let review_count = (case reviewCount product of None \<Rightarrow> 0 | Some n \<Rightarrow> n)
             in Inr \<lparr> asin = a,
                      title = (case raw_title product of None \<Rightarrow> ascii ''N/A'' | Some t \<Rightarrow> t),
                      brand = (case raw_brand product of None \<Rightarrow> ascii ''N/A'' | Some b \<Rightarrow> b),
                      category_id =
                        (case rootCategory product of
                           None \<Rightarrow> NotAvailable | Some c \<Rightarrow> CategoryId c),
                      category_name = None,
                      sales_rank = or_zero sales_rank,
                      rating_value = rating_float,
                      review_count = review_count,
                      rating_display =
                        fmt_1f rating_float @ ascii ''/5 ('' @ fmt_thousands review_count
                        @ ascii '' reviews)'',
                      current_price = format_price price,
                      image_url = image_url \<rparr>))))"

text \<open>
  The loop over the snapshots: one without an \<open>asin\<close> is skipped, and an exception in
  the body leaves the loop at once.
\<close>

fun extract_all :: "raw_product list \<Rightarrow> exn + details list" where
  "extract_all [] = Inr []"
| "extract_all (product # products) =
     (case raw_asin product of
        None \<Rightarrow> extract_all products
      | Some a \<Rightarrow>
         (case extract_details a product of
            Inl e \<Rightarrow> Inl e
          | Inr d \<Rightarrow>
             (case extract_all products of Inl e \<Rightarrow> Inl e | Inr ds \<Rightarrow> Inr (d # ds))))"

section \<open>The eligibility verdict\<close>

text \<open>
  The body of a successful eligibility response is any JSON value (its numbers are
  integers here). An object is the list of its items, whose keys are distinct.
\<close>

datatype json =
    JNull
  | JBool bool
  | JInt int
  | JStr pystr
  | JList "json list"
  | JObj "(pystr \<times> json) list"

fun truthy :: "json \<Rightarrow> bool" where
  "truthy JNull = False"
| "truthy (JBool b) = b"
| "truthy (JInt i) = (i \<noteq> 0)"
| "truthy (JStr s) = (s \<noteq> [])"
| "truthy (JList xs) = (xs \<noteq> [])"
| "truthy (JObj kvs) = (kvs \<noteq> [])"

fun type_name :: "json \<Rightarrow> pystr" where
  "type_name JNull = ascii ''NoneType''"
| "type_name (JBool b) = ascii ''bool''"
| "type_name (JInt i) = ascii ''int''"
| "type_name (JStr s) = ascii ''str''"
| "type_name (JList xs) = ascii ''list''"
| "type_name (JObj kvs) = ascii ''dict''"

text \<open>
  The dict that \<open>check_seller_eligibility\<close> returns: \<open>{'success': True, 'data': j}\<close>, or
  \<open>{'success': False, 'error': e}\<close> with or without the key \<open>details\<close>.
\<close>

datatype eligibility_data = Success json | Failure pystr "pystr option"

record parsed =
  status :: pystr
  reason :: pystr

definition STATUS_API_ERROR :: pystr where
  "STATUS_API_ERROR = 10067 # ascii '' API Error''"

definition STATUS_ELIGIBLE :: pystr where
  "STATUS_ELIGIBLE = 9989 # ascii '' Eligible''"

definition STATUS_RESTRICTED :: pystr where
  "STATUS_RESTRICTED = 10060 # ascii '' Restricted''"

definition STATUS_NOT_FOUND :: pystr where
  "STATUS_NOT_FOUND = 9888 # 65039 # ascii '' Not Found''"

definition STATUS_PARSE_ERROR :: pystr where
  "STATUS_PARSE_ERROR = 128295 # ascii '' Parse Error''"

definition eligible :: parsed where
  "eligible = \<lparr> status = STATUS_ELIGIBLE,
                reason = ascii ''Seller is eligible to sell this product'' \<rparr>"

definition restricted :: parsed where
  "restricted = \<lparr> status = STATUS_RESTRICTED,
                  reason = ascii ''Seller is not eligible to sell this product'' \<rparr>"

definition not_found :: parsed where
  "not_found = \<lparr> status = STATUS_NOT_FOUND,
                 reason = ascii ''ASIN not found in eligibility results'' \<rparr>"

definition parse_error :: "pystr \<Rightarrow> parsed" where
  "parse_error m = \<lparr> status = STATUS_PARSE_ERROR,
                     reason = ascii ''Failed to parse eligibility: '' @ m \<rparr>"

definition api_error :: "pystr \<Rightarrow> pystr option \<Rightarrow> parsed" where
  "api_error error_msg details =
     \<lparr> status = STATUS_API_ERROR,
       reason = error_msg @ ascii '': ''
                @ take 50 (case details of None \<Rightarrow> [] | Some d \<Rightarrow> d) @ ascii ''...'' \<rparr>"

text \<open>
  The loop over the items of the response: \<open>item.get\<close> on an item that is no dict raises
  (\<open>Inl\<close> holds the message of the exception), and the first item whose \<open>asin\<close> equals the
  identifier decides.
\<close>

definition attribute_error :: "json \<Rightarrow> pystr" where
  "attribute_error item =
     [39] @ type_name item @ [39] @ ascii '' object has no attribute '' @ [39]
     @ ascii ''get'' @ [39]"

fun find_verdict :: "json list \<Rightarrow> pystr \<Rightarrow> pystr + parsed option" where
  "find_verdict [] a = Inr None"
| "find_verdict (item # items) a =
     (case item of
        JObj kvs \<Rightarrow>
          if map_of kvs (ascii ''asin'') = Some (JStr a) then
            (let is_eligible =
               (case map_of kvs (ascii ''isEligible'') of None \<Rightarrow> JBool False | Some v \<Rightarrow> v)
             in Inr (Some (if truthy is_eligible then eligible else restricted)))
          else find_verdict items a
      | _ \<Rightarrow> Inl (attribute_error item))"

text \<open>
  \<open>parse_eligibility_result\<close>. The dict of the eligibility client is never empty, so the
  first test of the source (\<open>not eligibility_data\<close>) is false.
\<close>

definition parse_eligibility_result :: "eligibility_data \<Rightarrow> pystr \<Rightarrow> parsed" where
  "parse_eligibility_result eligibility_data a =
     (case eligibility_data of
        Success (JList items) \<Rightarrow>
          (case find_verdict items a of
             Inl m \<Rightarrow> parse_error m
           | Inr (Some v) \<Rightarrow> v
           | Inr None \<Rightarrow> not_found)
      | Success _ \<Rightarrow> not_found
      | Failure error_msg details \<Rightarrow> api_error error_msg details)"

section \<open>The providers\<close>

text \<open>
  What the code sends to a provider, and what may come back. A call of the catalog
  provider raises (\<open>Inl\<close>) or returns; the HTTP client raises a \<open>RequestException\<close> or
  another exception, or returns a response, whose \<open>json()\<close> may raise in turn.
\<close>

datatype raised = RequestException pystr | OtherException pystr

record http_response =
  status_code :: int
  resp_text :: pystr
  resp_json :: "raised + json"

datatype call =
    ProductFinder pystr nat "pystr option" pystr
  | Query "pystr list" pystr
  | CategoryLookup int pystr
  | Post pystr pystr int "pystr list"

text \<open>
  The world a request runs in: the Unicode upper-casing of the runtime, the configured
  bearer token, and the answer of each provider to each call. \<open>product_finder\<close> takes the
  \<open>sellerIds\<close>, the \<open>pageSize\<close>, the \<open>category\<close> (when the key is set) and the domain, and an
  answer of \<open>None\<close> is the empty list; \<open>category_lookup\<close> answers with the items of a dict
  from the category id's string to the category object, read as its \<open>name\<close> when it has
  one; \<open>post\<close> takes the token, the seller id, the marketplace number and the identifiers.
\<close>

record env =
  unicode_upper :: "nat \<Rightarrow> pystr"
  OPTISAGE_TOKEN :: pystr
  product_finder :: "pystr \<Rightarrow> nat \<Rightarrow> pystr option \<Rightarrow> pystr \<Rightarrow> exn + pystr list"
  query :: "pystr list \<Rightarrow> pystr \<Rightarrow> exn + raw_product list"
  category_lookup :: "int \<Rightarrow> pystr \<Rightarrow> exn + (pystr \<times> pystr option) list"
  post :: "pystr \<Rightarrow> pystr \<Rightarrow> int \<Rightarrow> pystr list \<Rightarrow> raised + http_response"

definition MAX_PRODUCTS :: nat where
  "MAX_PRODUCTS = 30"

definition DOMAIN_MAP :: "(pystr \<times> pystr) list" where
  "DOMAIN_MAP =
     [(ascii ''US'', ascii ''US''), (ascii ''UK'', ascii ''UK''), (ascii ''DE'', ascii ''DE''),
      (ascii ''FR'', ascii ''FR''), (ascii ''JP'', ascii ''JP''), (ascii ''CA'', ascii ''CA'')]"

definition MARKETPLACE_NUMERIC :: "(pystr \<times> int) list" where
  "MARKETPLACE_NUMERIC =
     [(ascii ''US'', 1), (ascii ''UK'', 3), (ascii ''DE'', 4),
      (ascii ''FR'', 5), (ascii ''JP'', 6), (ascii ''CA'', 7)]"

text \<open>\<open>MARKETPLACE_NUMERIC.get(marketplace, 1)\<close>.\<close>

definition marketplace_numeric :: "pystr \<Rightarrow> int" where
  "marketplace_numeric marketplace =
     (case map_of MARKETPLACE_NUMERIC marketplace of None \<Rightarrow> 1 | Some n \<Rightarrow> n)"

text \<open>Every function that may call a provider returns its result and the calls it made.\<close>

definition check_seller_eligibility ::
  "env \<Rightarrow> pystr \<Rightarrow> pystr \<Rightarrow> pystr list \<Rightarrow> pystr \<Rightarrow> (raised + eligibility_data) \<times> call list" where
  "check_seller_eligibility w bearer_token seller_id asins marketplace =
     (if bearer_token = [] then
        (Inr (Failure (ascii ''No OptiSage token provided'') None), [])
      else
        (let marketplace_id = marketplace_numeric marketplace
         in ((case post w bearer_token seller_id marketplace_id asins of
                Inl (RequestException m) \<Rightarrow> Inr (Failure (ascii ''Request failed: '' @ m) None)
              | Inl (OtherException m) \<Rightarrow> Inl (OtherException m)
              | Inr resp \<Rightarrow>
                  if status_code resp = 200 then
                    (case resp_json resp of
                       Inr j \<Rightarrow> Inr (Success j)
                     | Inl (RequestException m) \<Rightarrow>
                         Inr (Failure (ascii ''Request failed: '' @ m) None)
                     | Inl (OtherException m) \<Rightarrow> Inl (OtherException m))
                  else
                    Inr (Failure (ascii ''API Error '' @ str_int (status_code resp))
                           (Some (resp_text resp)))),
             [Post bearer_token seller_id marketplace_id asins])))"

definition get_seller_asins ::
  "env \<Rightarrow> pystr \<Rightarrow> pystr \<Rightarrow> nat \<Rightarrow> int option \<Rightarrow> (exn + pystr list) \<times> call list" where
  "get_seller_asins w seller_id domain max_asins cid =
     (let category = (case cid of None \<Rightarrow> None | Some c \<Rightarrow> Some (str_int c))
      in ((case product_finder w seller_id max_asins category domain of
             Inl e \<Rightarrow> Inl (RuntimeError (ascii ''ASIN fetch error: '' @ str_exn e))
           | Inr asins \<Rightarrow> Inr (take max_asins asins)),
          [ProductFinder seller_id max_asins category domain]))"

definition get_product_details_batch ::
  "env \<Rightarrow> pystr list \<Rightarrow> pystr \<Rightarrow> (exn + details list) \<times> call list" where
  "get_product_details_batch w asins domain =
     (if asins = [] then (Inr [], [])
      else
        ((case query w asins domain of
            Inl e \<Rightarrow> Inl (RuntimeError (ascii ''Product details error: '' @ str_exn e))
          | Inr products \<Rightarrow>
              (case extract_all products of
                 Inl e \<Rightarrow> Inl (RuntimeError (ascii ''Product details error: '' @ str_exn e))
               | Inr product_details \<Rightarrow> Inr product_details)),
         [Query asins domain]))"

definition get_category_name :: "env \<Rightarrow> int \<Rightarrow> pystr \<Rightarrow> pystr \<times> call list" where
  "get_category_name w cid domain =
     ((case category_lookup w cid domain of
         Inl e \<Rightarrow> ascii ''Category Lookup Failed''
       | Inr categories \<Rightarrow>
           (case map_of categories (str_int cid) of
              None \<Rightarrow> ascii ''Unknown Category''
            | Some category_obj \<Rightarrow>
                (case category_obj of None \<Rightarrow> ascii ''Unknown Category'' | Some name \<Rightarrow> name))),
      [CategoryLookup cid domain])"

section \<open>The pipeline\<close>

record seller_request =
  req_seller_id :: pystr
  req_marketplace :: pystr
  req_category_id :: "int option"

record product_row =
  index :: nat
  ASIN :: pystr
  Title :: pystr
  Brand :: pystr
  Category :: "pystr option"
  SalesRank :: int
  Velocity :: pystr
  Eligibility :: pystr
  Comment :: pystr
  Rating :: pystr
  Reviews :: pystr
  Price :: pystr
  ImageURL :: "pystr option"

record response =
  Seller :: pystr
  Marketplace :: pystr
  Filter_Category_ID :: pyval
  Total_Products :: nat
  Products :: "product_row list"

text \<open>
  A request ends with a response, with an \<open>HTTPException\<close> (status code and detail), or
  with an exception that nothing in the endpoint catches.
\<close>

datatype failure = HTTPException int pystr | Unhandled raised

definition VELOCITY_FAST :: pystr where
  "VELOCITY_FAST = 128640 # ascii '' YES (< 50K)''"

definition VELOCITY_SLOW :: pystr where
  "VELOCITY_SLOW = ascii ''SLOW (> 50K)''"

text \<open>\<open>str(list(DOMAIN_MAP.keys()))\<close>, for keys that need no escaping.\<close>

fun join_keys :: "pystr list \<Rightarrow> pystr" where
  "join_keys [] = []"
| "join_keys [k] = [39] @ k @ [39]"
| "join_keys (k # ks) = [39] @ k @ [39] @ ascii '', '' @ join_keys ks"

definition repr_keys :: "pystr list \<Rightarrow> pystr" where
  "repr_keys ks = [91] @ join_keys ks @ [93]"

text \<open>
  \<open>requested_category_id_str\<close>: the string of the category id when the id is truthy,
  otherwise \<open>None\<close>.
\<close>

definition requested_category_id_str :: "seller_request \<Rightarrow> pystr option" where
  "requested_category_id_str req =
     (case req_category_id req of
        None \<Rightarrow> None
      | Some c \<Rightarrow> if c \<noteq> 0 then Some (str_int c) else None)"

text \<open>
  Step 3 of the endpoint, the loop that names the category of every product and keeps
  the products that pass the strict filter. The name is looked up when \<open>cid\<close> is truthy
  and is not \<open>'N/A'\<close>; \<open>get_category_name\<close> never raises, so the handler around it
  is never entered.
\<close>

fun reconcile :: "env \<Rightarrow> pystr \<Rightarrow> pystr option \<Rightarrow> details list \<Rightarrow> details list \<times> call list" where
  "reconcile w marketplace requested [] = ([], [])"
| "reconcile w marketplace requested (p # products) =
     (let cid = category_id p;
          named =
            (case cid of
               CategoryId c \<Rightarrow>
                 if c \<noteq> 0 then get_category_name w c marketplace else (ascii ''Unknown'', [])
             | NotAvailable \<Rightarrow> (ascii ''Unknown'', []));
          p' = p\<lparr> category_name := Some (fst named) \<rparr>;
          rest = reconcile w marketplace requested products
      in (if requested = None \<or> Some (str_category cid) = requested
          then p' # fst rest else fst rest,
          snd named @ snd rest))"

text \<open>Step 5: one row of the response for the product at position \<open>idx\<close>.\<close>

definition format_row :: "eligibility_data \<Rightarrow> nat \<times> details \<Rightarrow> product_row" where
  "format_row eligibility_data ip =
     (let idx = fst ip;
          p = snd ip;
          a = asin p;
          parsed = parse_eligibility_result eligibility_data a
      in \<lparr> index = idx + 1,
           ASIN = a,
           Title = title p,
           Brand = brand p,
           Category = category_name p,
           SalesRank = sales_rank p,
           Velocity = (if sales_rank p < 50000 then VELOCITY_FAST else VELOCITY_SLOW),
           Eligibility = status parsed,
           Comment = reason parsed,
           Rating = rating_display p,
           Reviews = str_int (review_count p),
           Price = current_price p,
           ImageURL = image_url p \<rparr>)"

definition format_products :: "eligibility_data \<Rightarrow> details list \<Rightarrow> product_row list" where
  "format_products eligibility_data final_products =
     map (format_row eligibility_data) (enumerate 0 final_products)"

text \<open>The details of the two not-found failures.\<close>

definition no_asins_detail :: "seller_request \<Rightarrow> pystr" where
  "no_asins_detail req =
     (let filter_detail =
        (case req_category_id req of
           None \<Rightarrow> []
         | Some c \<Rightarrow> if c \<noteq> 0 then ascii '' in Category ID '' @ str_int c else [])
      in ascii ''No ASINs found for this seller'' @ filter_detail @ ascii ''.'')"

definition no_match_detail :: "seller_request \<Rightarrow> pystr" where
  "no_match_detail req =
     ascii ''No products matched the Seller ID and the strict filter for Category ID ''
     @ (case req_category_id req of None \<Rightarrow> ascii ''None'' | Some c \<Rightarrow> str_int c)
     @ ascii '' after fetching.''"

text \<open>
  The endpoint \<open>analyze_seller\<close>, in two parts. \<open>final_products\<close> is the endpoint up to
  its step 4: the marketplace check, discovery, enrichment, and the strict filter with its
  not-found check. It gives the list \<open>final_products\<close> of the source, or the failure
  raised, and the provider calls made, in order.
\<close>

definition final_products :: "env \<Rightarrow> seller_request \<Rightarrow> (failure + details list) \<times> call list" where
  "final_products w req =
     (let marketplace = upper (unicode_upper w) (req_marketplace req) in
      if marketplace \<notin> set (map fst DOMAIN_MAP) then
        (Inl (HTTPException 400
               (ascii ''Unsupported marketplace '' @ [39] @ req_marketplace req @ [39]
                @ ascii ''. Use one of: '' @ repr_keys (map fst DOMAIN_MAP))), [])
      else
       (let requested = requested_category_id_str req in
        case get_seller_asins w (req_seller_id req) marketplace MAX_PRODUCTS (req_category_id req) of
          (Inl e, t1) \<Rightarrow>
            (Inl (HTTPException 502 (ascii ''Keepa ASIN Fetch Error: '' @ str_exn e)), t1)
        | (Inr asins, t1) \<Rightarrow>
            if asins = [] then (Inl (HTTPException 404 (no_asins_detail req)), t1)
            else
             (case get_product_details_batch w asins marketplace of
                (Inl e, t2) \<Rightarrow>
                  (Inl (HTTPException 502 (ascii ''Keepa Product Details Error: '' @ str_exn e)),
                   t1 @ t2)
              | (Inr products, t2) \<Rightarrow>
                 (case reconcile w marketplace requested products of
                    (kept, t3) \<Rightarrow>
                      if kept = [] \<and> requested \<noteq> None then
                        (Inl (HTTPException 404 (no_match_detail req)), t1 @ t2 @ t3)
                      else (Inr kept, t1 @ t2 @ t3)))))"

text \<open>
  Steps 4 and 5: one eligibility call on the identifiers of the filtered list, then the
  response. An exception that the eligibility client lets through ends the request.
\<close>

definition analyze_seller :: "env \<Rightarrow> seller_request \<Rightarrow> (failure + response) \<times> call list" where
  "analyze_seller w req =
     (let marketplace = upper (unicode_upper w) (req_marketplace req) in
      case final_products w req of
        (Inl f, t) \<Rightarrow> (Inl f, t)
      | (Inr kept, t) \<Rightarrow>
         (let filtered_asins = map asin kept in
          case check_seller_eligibility w (OPTISAGE_TOKEN w) (req_seller_id req)
                 filtered_asins marketplace of
            (Inl r, t4) \<Rightarrow> (Inl (Unhandled r), t @ t4)
          | (Inr eligibility_data, t4) \<Rightarrow>
             (let formatted = format_products eligibility_data kept in
              (Inr \<lparr> Seller = req_seller_id req,
                     Marketplace = marketplace,
                     Filter_Category_ID =
                       (case req_category_id req of
                          None \<Rightarrow> StrVal (ascii ''None'')
                        | Some c \<Rightarrow> if c \<noteq> 0 then IntVal c else StrVal (ascii ''None'')),
                     Total_Products = length formatted,
                     Products = formatted \<rparr>,
               t @ t4))))"

section \<open>Notions the statements use\<close>

text \<open>
  Two strings are equal up to the case of ASCII letters: both are ASCII and they agree once
  every upper-case letter is replaced by its lower-case letter.
\<close>

definition fold_cp :: "nat \<Rightarrow> nat" where
  "fold_cp c = (if 65 \<le> c \<and> c \<le> 90 then c + 32 else c)"

definition ascii_caseless_eq :: "pystr \<Rightarrow> pystr \<Rightarrow> bool" where
  "ascii_caseless_eq s t =
     (list_all (\<lambda>c. c < 128) s \<and> list_all (\<lambda>c. c < 128) t \<and> map fold_cp s = map fold_cp t)"

text \<open>The calls of the eligibility provider in a trace.\<close>

fun is_post :: "call \<Rightarrow> bool" where
  "is_post (Post t s m as) = True"
| "is_post _ = False"


text \<open>
  An item of an eligibility response is about the identifier \<open>a\<close> when it is an object
  whose \<open>asin\<close> is the string \<open>a\<close>; \<open>eligible_flag\<close> is its \<open>isEligible\<close>, \<open>False\<close> when it
  has none.
\<close>

definition matches :: "pystr \<Rightarrow> json \<Rightarrow> bool" where
  "matches a item =
     (case item of JObj kvs \<Rightarrow> map_of kvs (ascii ''asin'') = Some (JStr a) | _ \<Rightarrow> False)"

definition is_obj :: "json \<Rightarrow> bool" where
  "is_obj item = (case item of JObj kvs \<Rightarrow> True | _ \<Rightarrow> False)"

definition eligible_flag :: "json \<Rightarrow> json" where
  "eligible_flag item =
     (case item of
        JObj kvs \<Rightarrow> (case map_of kvs (ascii ''isEligible'') of None \<Rightarrow> JBool False | Some v \<Rightarrow> v)
      | _ \<Rightarrow> JBool False)"

text \<open>Two worlds give the same answer to a call.\<close>

fun same_answer :: "env \<Rightarrow> env \<Rightarrow> call \<Rightarrow> bool" where
  "same_answer w w' (ProductFinder s n c d) = (product_finder w s n c d = product_finder w' s n c d)"
| "same_answer w w' (Query as d) = (query w as d = query w' as d)"
| "same_answer w w' (CategoryLookup c d) = (category_lookup w c d = category_lookup w' c d)"
| "same_answer w w' (Post t s m as) = (post w t s m as = post w' t s m as)"

section \<open>Concrete worlds\<close>

text \<open>
  Snapshots, requests and worlds on which the theorems below are run. \<open>snapshot\<close> has an
  identifier, a title, a root category and the list \<open>current\<close> of its \<open>stats\<close> (no \<open>stats\<close>
  at all for \<open>None\<close>); \<open>demo_env\<close> answers discovery by the category sent, enrichment with
  fixed snapshots, every category lookup with the name \<open>Books\<close> and the eligibility call
  with a fixed outcome.
\<close>

definition snapshot :: "string \<Rightarrow> int option \<Rightarrow> int list option \<Rightarrow> raw_product" where
  "snapshot a c cur =
     \<lparr> raw_asin = Some (ascii a), raw_title = Some (ascii ''Title''), raw_brand = None,
       rootCategory = c,
       stats = (case cur of None \<Rightarrow> None | Some l \<Rightarrow> Some \<lparr> current = Some l \<rparr>),
       image = None, imagesCSV = None, rating = None, reviewCount = None \<rparr>"

definition request :: "string \<Rightarrow> int option \<Rightarrow> seller_request" where
  "request m c = \<lparr> req_seller_id = ascii ''S1'', req_marketplace = ascii m, req_category_id = c \<rparr>"

definition demo_env ::
  "(pystr option \<Rightarrow> exn + pystr list) \<Rightarrow> (exn + raw_product list) \<Rightarrow> (raised + http_response) \<Rightarrow> env" where
  "demo_env finder snapshots answer =
     \<lparr> unicode_upper = (\<lambda>c. [c]),
       OPTISAGE_TOKEN = ascii ''token'',
       product_finder = (\<lambda>s n c d. finder c),
       query = (\<lambda>as d. snapshots),
       category_lookup = (\<lambda>c d. Inr [(str_int c, Some (ascii ''Books''))]),
       post = (\<lambda>t s m as. answer) \<rparr>"

text \<open>Price signals \<open>(0, 0, 0, 5)\<close> in the slots 0, 13, 7 and 1, and no rank signal.\<close>

definition slots_0005 :: "int list" where
  "slots_0005 = [0, 5] @ replicate 12 0"

text \<open>An eligibility answer with HTTP status 500.\<close>

definition http_500 :: "raised + http_response" where
  "http_500 =
     Inr \<lparr> status_code = 500, resp_text = ascii ''Internal Server Error'',
           resp_json = Inl (RequestException (ascii ''no JSON'')) \<rparr>"

text \<open>
  An eligibility answer with status 200 whose body lists \<open>A1\<close> as eligible and \<open>A2\<close> as
  not eligible, and one whose body holds \<open>null\<close> before the item of \<open>A1\<close>.
\<close>

definition http_200_mixed :: "raised + http_response" where
  "http_200_mixed =
     Inr \<lparr> status_code = 200, resp_text = [],
           resp_json =
             Inr (JList [JObj [(ascii ''asin'', JStr (ascii ''A1'')),
                               (ascii ''isEligible'', JBool True)],
                         JObj [(ascii ''asin'', JStr (ascii ''A2'')),
                               (ascii ''isEligible'', JBool False)]]) \<rparr>"

definition http_200_null_first :: "raised + http_response" where
  "http_200_null_first =
     Inr \<lparr> status_code = 200, resp_text = [],
           resp_json =
             Inr (JList [JNull,
                         JObj [(ascii ''asin'', JStr (ascii ''A1'')),
                               (ascii ''isEligible'', JBool True)]]) \<rparr>"

text \<open>
  A seller with the two products \<open>A1\<close> of root category 100 and \<open>A2\<close> of root category 200,
  whatever category discovery is asked for.
\<close>

definition two_categories_env :: "(raised + http_response) \<Rightarrow> env" where
  "two_categories_env answer =
     demo_env (\<lambda>c. Inr [ascii ''A1'', ascii ''A2''])
       (Inr [snapshot ''A1'' (Some 100) None, snapshot ''A2'' (Some 200) None]) answer"

text \<open>
  A world that answers like \<open>two_categories_env http_500\<close> to the enrichment query for
  \<open>A1\<close> and \<open>A2\<close> in the domain \<open>US\<close>, and fails on every other enrichment query.
\<close>

definition picky_env :: env where
  "picky_env =
     (two_categories_env http_500)
       \<lparr> query :=
           (\<lambda>as d. if as = [ascii ''A1'', ascii ''A2''] \<and> d = ascii ''US''
                    then Inr [snapshot ''A1'' (Some 100) None, snapshot ''A2'' (Some 200) None]
                    else Inl (Upstream (ascii ''down''))) \<rparr>"

section \<open>Facts about the string functions\<close>

lemma digits_nonempty: "digits n \<noteq> []"
  by (subst digits.simps) simp

lemma digits_range: "c \<in> set (digits n) \<Longrightarrow> 48 \<le> c \<and> c \<le> 57"
proof (induction n rule: digits.induct)
  case (1 n)
  show ?case
  proof (cases "n < 10")
    case True
    with "1.prems" show ?thesis by (subst (asm) digits.simps) simp
  next
    case False
    from "1.prems" have "c \<in> set (digits (n div 10)) \<or> c = 48 + n mod 10"
      using False by (subst (asm) digits.simps) auto
    then show ?thesis
    proof
      assume "c \<in> set (digits (n div 10))"
      with "1.IH" False show ?thesis by simp
    next
      assume "c = 48 + n mod 10"
      then show ?thesis by simp
    qed
  qed
qed

lemma digits_inj: "digits m = digits n \<Longrightarrow> m = n"
proof (induction m arbitrary: n rule: digits.induct)
  case (1 m)
  show ?case
  proof (cases "m < 10")
    case m: True
    show ?thesis
    proof (cases "n < 10")
      case True
      with m "1.prems" show ?thesis
        by (simp add: digits.simps [of m] digits.simps [of n])
    next
      case False
      with m "1.prems" digits_nonempty [of "n div 10"] show ?thesis
        by (simp add: digits.simps [of m] digits.simps [of n])
    qed
  next
    case m: False
    show ?thesis
    proof (cases "n < 10")
      case True
      with m "1.prems" digits_nonempty [of "m div 10"] show ?thesis
        by (simp add: digits.simps [of m] digits.simps [of n])
    next
      case False
      with m "1.prems" have eq: "digits (m div 10) = digits (n div 10)" and r: "m mod 10 = n mod 10"
        by (simp_all add: digits.simps [of m] digits.simps [of n])
      from "1.IH" [OF m eq] have "m div 10 = n div 10" .
      with r show ?thesis by (metis div_mult_mod_eq)
    qed
  qed
qed

lemma hd_digits: "hd (digits n) \<noteq> 45"
proof -
  have "hd (digits n) \<in> set (digits n)" using digits_nonempty [of n] by simp
  from digits_range [OF this] show ?thesis by simp
qed

lemma str_int_inj: "str_int a = str_int b \<Longrightarrow> a = b"
proof -
  assume eq: "str_int a = str_int b"
  have neg: "45 # digits x \<noteq> digits y" for x y
    using hd_digits [of y] by (metis list.sel(1))
  show ?thesis
  proof (cases "a < 0")
    case a: True
    show ?thesis
    proof (cases "b < 0")
      case True
      with a eq have "nat (- a) = nat (- b)" by (auto simp: str_int_def dest: digits_inj)
      with a True show ?thesis by simp
    next
      case False
      with a eq neg show ?thesis by (simp add: str_int_def)
    qed
  next
    case a: False
    show ?thesis
    proof (cases "b < 0")
      case True
      with a eq neg [of "nat (- b)" "nat a"] show ?thesis by (simp add: str_int_def)
    next
      case False
      with a eq have "nat a = nat b" by (auto simp: str_int_def dest: digits_inj)
      with a False show ?thesis by simp
    qed
  qed
qed

lemma str_int_hd: "hd (str_int i) = 45 \<or> (48 \<le> hd (str_int i) \<and> hd (str_int i) \<le> 57)"
  using digits_range [of "hd (digits (nat i))" "nat i"] digits_nonempty [of "nat i"]
  by (auto simp: str_int_def)

lemma str_int_not_NA: "str_int i \<noteq> ascii ''N/A''"
  using str_int_hd [of i] by (auto simp: ascii_def)

lemma str_int_nonempty: "str_int i \<noteq> []"
  using digits_nonempty by (simp add: str_int_def)

section \<open>Evaluation\<close>

text \<open>The defining equations that the simplifier unfolds to run the model on a concrete world.\<close>

lemmas eval_defs =
  ascii_def str_int_def digits.simps group3.simps upper_def upper_cp_def digit_def
  bitlen.simps rne_div_def scaled_def to_double_def units_def cents_to_price_def
  rating_to_float_def current_price_of_def
  fmt_2f_def fmt_1f_def fmt_thousands_def py_index_def current_data_def truthy_str_def
  extract_image_url_def current_price_cents_def format_price_def extract_sales_rank_def
  or_zero_def extract_details_def
  STATUS_API_ERROR_def STATUS_ELIGIBLE_def STATUS_RESTRICTED_def STATUS_NOT_FOUND_def
  STATUS_PARSE_ERROR_def eligible_def restricted_def not_found_def parse_error_def
  api_error_def attribute_error_def parse_eligibility_result_def
  MAX_PRODUCTS_def DOMAIN_MAP_def MARKETPLACE_NUMERIC_def marketplace_numeric_def
  check_seller_eligibility_def get_seller_asins_def get_product_details_batch_def
  get_category_name_def VELOCITY_FAST_def VELOCITY_SLOW_def repr_keys_def
  requested_category_id_str_def format_row_def format_products_def enumerate_eq_zip
  no_asins_detail_def no_match_detail_def final_products_def analyze_seller_def
  snapshot_def request_def demo_env_def slots_0005_def http_500_def http_200_mixed_def http_200_null_first_def
  Let_def

section \<open>The attribute extractor: price, rank and failures\<close>

lemma price_chain_with_four_slots:
  assumes "13 < length cur"
  shows "current_price_cents cur =
     Inr (case find (\<lambda>v. 0 < v) [cur ! 0, cur ! 13, cur ! 7, cur ! 1] of
            None \<Rightarrow> 0 | Some v \<Rightarrow> v)"
proof -
  from assms have "cur \<noteq> []" "7 < length cur" "1 < length cur" by auto
  with assms show ?thesis
    by (simp add: current_price_cents_def py_index_def)
qed

lemma price_of_no_signal: "format_price None = ascii ''N/A''"
  by (simp add: format_price_def)

lemma price_of_five_cents:
  "\<exists>d. extract_details (ascii ''A1'') (snapshot ''A1'' (Some 100) (Some slots_0005)) = Inr d \<and>
       current_price d = ascii ''$0.05''"
  by (simp add: eval_defs)

text \<open>
  Claim C3. On a list \<open>current\<close> that holds the four slots the price chain gives the first
  strictly positive of the slots 0, 13, 7 and 1, and 0 when there is none
  (\<open>price_chain_with_four_slots\<close>), which is formatted as \<open>N/A\<close>; the signals
  \<open>(0, 0, 0, 5)\<close> give the price of the fourth slot (\<open>price_of_five_cents\<close>). On a
  shorter list the chain does not do what the claim says: it reads slot 13 without a test of
  the length as soon as slot 0 is not positive. For the list \<open>[0, 5]\<close>, whose slot 1 is
  strictly positive, and for the list \<open>[0, 0, 0, 0]\<close>, which has no positive slot, no
  price and no \<open>N/A\<close> is extracted: the extraction raises \<open>IndexError\<close>.
\<close>

theorem price_chain_raises_on_short_list:
  "extract_details (ascii ''A1'') (snapshot ''A1'' (Some 100) (Some [0, 5])) = Inl IndexError \<and>
   extract_details (ascii ''A1'') (snapshot ''A1'' (Some 100) (Some [0, 0, 0, 0])) = Inl IndexError"
  by (simp add: eval_defs)

lemma extract_all_skips:
  "raw_asin product = None \<Longrightarrow> extract_all (product # products) = extract_all products"
  by simp

lemma get_product_details_batch_empty: "get_product_details_batch w [] domain = (Inr [], [])"
  by (simp add: get_product_details_batch_def)

text \<open>
  Claim C8. The enrichment step returns the empty list without a call on an empty
  identifier list and skips a snapshot without an identifier (the two lemmas above). It
  does not survive every malformed record: of two snapshots, the second with a list
  \<open>current\<close> of four zeros, the price chain reads slot 13 beyond the end of that list, and
  the whole batch ends in the enrichment error, although the provider answered.
\<close>

theorem short_current_list_fails_batch:
  "get_product_details_batch
     (demo_env (\<lambda>c. Inr [ascii ''A1'', ascii ''A2''])
        (Inr [snapshot ''A1'' (Some 100) (Some slots_0005), snapshot ''A2'' (Some 100) (Some [0, 0, 0, 0])])
        http_500)
     [ascii ''A1'', ascii ''A2''] (ascii ''US'')
   = (Inl (RuntimeError (ascii ''Product details error: list index out of range'')),
      [Query [ascii ''A1'', ascii ''A2''] (ascii ''US'')])"
  by (simp add: eval_defs)

lemma velocity_by_rank:
  "Velocity (format_row eligibility_data ip) =
     (if sales_rank (snd ip) < 50000 then VELOCITY_FAST else VELOCITY_SLOW)"
  by (simp add: format_row_def Let_def)

lemma extracted_rank:
  "extract_details a product = Inr d \<Longrightarrow>
   sales_rank d =
     (if 3 < length (current_data product) \<and> 0 < current_data product ! 3
      then current_data product ! 3 else 0)"
  by (auto simp: extract_details_def extract_sales_rank_def or_zero_def Let_def
        split: sum.splits option.splits)

text \<open>
  Claim C2. A record's velocity is the fast label exactly when its stored rank is below
  50000 (\<open>velocity_by_rank\<close>), but the stored rank of a snapshot without a positive rank
  signal is 0 (\<open>extracted_rank\<close>), which is below 50000: for a seller whose only snapshot
  has no rank signal, the response shows the rank 0 and the fast label.
\<close>

theorem absent_rank_is_fast:
  "(case fst (analyze_seller
        (demo_env (\<lambda>c. Inr [ascii ''A1'']) (Inr [snapshot ''A1'' (Some 100) None]) http_500)
        (request ''US'' None)) of
      Inl f \<Rightarrow> []
    | Inr res \<Rightarrow> map (\<lambda>row. (SalesRank row, Velocity row = VELOCITY_FAST)) (Products res))
   = [(0, True)]"
  by (simp add: eval_defs)


section \<open>The strict category filter\<close>

lemma reconcile_kept:
  "p' \<in> set (fst (reconcile w m rq ps)) \<Longrightarrow>
   (rq = None \<or> Some (str_category (category_id p')) = rq) \<and>
   (\<exists>p \<in> set ps. \<exists>n. p' = p\<lparr> category_name := Some n \<rparr>)"
proof (induction ps)
  case Nil
  then show ?case by simp
next
  case (Cons p ps)
  then show ?case
    by (auto simp: Let_def split: if_splits)
qed

lemma reconcile_None_all:
  "map asin (fst (reconcile w m None ps)) = map asin ps \<and>
   map category_id (fst (reconcile w m None ps)) = map category_id ps"
  by (induction ps) (simp_all add: Let_def)

lemma str_category_eq:
  "str_category c = str_int r \<Longrightarrow> c = CategoryId r"
  by (cases c) (auto dest: str_int_inj simp: str_int_not_NA [symmetric])

lemma requested_cases:
  "requested_category_id_str req = Some s \<Longrightarrow>
   \<exists>c. req_category_id req = Some c \<and> c \<noteq> 0 \<and> s = str_int c"
  by (auto simp: requested_category_id_str_def split: option.splits if_splits)

lemma requested_None:
  "requested_category_id_str req = None \<longleftrightarrow>
   req_category_id req = None \<or> req_category_id req = Some 0"
  by (auto simp: requested_category_id_str_def split: option.splits if_splits)

lemma final_products_Inr:
  assumes "final_products w req = (Inr kept, t)"
  shows "\<exists>asins t1 products t2 t3.
     upper (unicode_upper w) (req_marketplace req) \<in> set (map fst DOMAIN_MAP) \<and>
     get_seller_asins w (req_seller_id req) (upper (unicode_upper w) (req_marketplace req))
        MAX_PRODUCTS (req_category_id req) = (Inr asins, t1) \<and> asins \<noteq> [] \<and>
     get_product_details_batch w asins (upper (unicode_upper w) (req_marketplace req))
        = (Inr products, t2) \<and>
     reconcile w (upper (unicode_upper w) (req_marketplace req))
        (requested_category_id_str req) products = (kept, t3) \<and>
     \<not> (kept = [] \<and> requested_category_id_str req \<noteq> None) \<and>
     t = t1 @ t2 @ t3"
  using assms
  unfolding final_products_def Let_def
  by (auto split: if_splits prod.splits sum.splits)

lemma analyze_seller_Inr:
  assumes "analyze_seller w req = (Inr res, t)"
  shows "\<exists>kept t' ed t4.
     final_products w req = (Inr kept, t') \<and>
     check_seller_eligibility w (OPTISAGE_TOKEN w) (req_seller_id req) (map asin kept)
        (upper (unicode_upper w) (req_marketplace req)) = (Inr ed, t4) \<and>
     Products res = format_products ed kept \<and>
     Seller res = req_seller_id req \<and>
     Marketplace res = upper (unicode_upper w) (req_marketplace req) \<and>
     Filter_Category_ID res =
       (case req_category_id req of
          None \<Rightarrow> StrVal (ascii ''None'')
        | Some c \<Rightarrow> if c \<noteq> 0 then IntVal c else StrVal (ascii ''None'')) \<and>
     Total_Products res = length kept \<and>
     t = t' @ t4"
  using assms
  unfolding analyze_seller_def Let_def
  by (auto simp: format_products_def split: prod.splits sum.splits)

lemma format_products_ASIN: "map ASIN (format_products ed kept) = map asin kept"
proof -
  have "map ASIN (format_products ed kept) = map (asin \<circ> snd) (enumerate 0 kept)"
    by (simp add: format_products_def format_row_def Let_def comp_def)
  also have "\<dots> = map asin (map snd (enumerate 0 kept))"
    by (simp only: map_map)
  finally show ?thesis by simp
qed

text \<open>
  Claim C1, as the code has it. Every record behind a row of the response passed the
  strict filter: the request names no category, or names the category 0 (which the
  endpoint takes for no filter), or the record's category id is the requested one. The
  records are the list \<open>final_products\<close>, which the rows follow in order.
\<close>

theorem strict_filter_unless_zero:
  assumes "analyze_seller w req = (Inr res, t)"
  shows "\<exists>kept t' ed.
     final_products w req = (Inr kept, t') \<and>
     Products res = format_products ed kept \<and>
     map ASIN (Products res) = map asin kept \<and>
     (\<forall>p \<in> set kept.
        req_category_id req = None \<or> req_category_id req = Some 0 \<or>
        Some (category_id p) = map_option CategoryId (req_category_id req))"
proof -
  from analyze_seller_Inr [OF assms] obtain kept t' ed where
    fp: "final_products w req = (Inr kept, t')" and pr: "Products res = format_products ed kept"
    by blast
  from final_products_Inr [OF fp] obtain products t3 where
    rc: "reconcile w (upper (unicode_upper w) (req_marketplace req))
           (requested_category_id_str req) products = (kept, t3)"
    by blast
  have asins: "map ASIN (Products res) = map asin kept"
    unfolding pr by (rule format_products_ASIN)
  have "req_category_id req = None \<or> req_category_id req = Some 0 \<or>
        Some (category_id p) = map_option CategoryId (req_category_id req)"
    if p: "p \<in> set kept" for p
  proof (cases "requested_category_id_str req")
    case None
    then show ?thesis by (auto simp: requested_None)
  next
    case (Some s)
    from requested_cases [OF Some] obtain c where
      c: "req_category_id req = Some c" "s = str_int c" by blast
    from p rc have "p \<in> set (fst (reconcile w (upper (unicode_upper w) (req_marketplace req))
           (requested_category_id_str req) products))" by simp
    from reconcile_kept [OF this] Some have "str_category (category_id p) = s" by simp
    with c have "category_id p = CategoryId c" by (simp add: str_category_eq)
    with c show ?thesis by simp
  qed
  with fp pr asins show ?thesis by blast
qed

theorem strict_filter_unless_zero_witness:
  "\<exists>kept. fst (final_products (two_categories_env http_500) (request ''US'' (Some 100))) = Inr kept \<and>
     map asin kept = [ascii ''A1''] \<and>
     list_all (\<lambda>p. category_id p = CategoryId 100) kept"
proof -
  let ?w = "two_categories_env http_500" and ?r = "request ''US'' (Some 100)"
  have "\<exists>res t. analyze_seller ?w ?r = (Inr res, t) \<and> map ASIN (Products res) = [ascii ''A1'']"
    by (simp add: eval_defs two_categories_env_def)
  then obtain res t where a: "analyze_seller ?w ?r = (Inr res, t)"
    and rows: "map ASIN (Products res) = [ascii ''A1'']" by (elim exE conjE)
  have r: "req_category_id ?r = Some 100" by (simp add: request_def)
  from strict_filter_unless_zero [OF a] obtain kept t' where
    fp: "final_products ?w ?r = (Inr kept, t')" and
    as: "map ASIN (Products res) = map asin kept" and
    cat: "\<forall>p \<in> set kept.
        req_category_id ?r = None \<or> req_category_id ?r = Some 0 \<or>
        Some (category_id p) = map_option CategoryId (req_category_id ?r)"
    by blast
  from cat r have "list_all (\<lambda>p. category_id p = CategoryId 100) kept"
    by (simp add: list_all_iff)
  with fp as rows show ?thesis by simp
qed

text \<open>
  The claim as stated (the filter is unset or the ids are equal) fails for a request
  with the category 0: the filter is set, and the records of the categories 100 and 200
  are both in the response.
\<close>

theorem strict_filter_fails_for_zero:
  "req_category_id (request ''US'' (Some 0)) = Some 0 \<and>
   (case fst (final_products (two_categories_env http_500) (request ''US'' (Some 0))) of
      Inl f \<Rightarrow> []
    | Inr kept \<Rightarrow> map (\<lambda>p. (asin p, category_id p)) kept)
     = [(ascii ''A1'', CategoryId 100), (ascii ''A2'', CategoryId 200)] \<and>
   (case fst (analyze_seller (two_categories_env http_500) (request ''US'' (Some 0))) of
      Inl f \<Rightarrow> []
    | Inr res \<Rightarrow> map ASIN (Products res))
     = [ascii ''A1'', ascii ''A2'']"
  by (simp add: eval_defs two_categories_env_def)


section \<open>The two not-found failures\<close>

lemma analyze_seller_HTTPException:
  "fst (analyze_seller w req) = Inl (HTTPException c d) \<longleftrightarrow>
   fst (final_products w req) = Inl (HTTPException c d)"
  unfolding analyze_seller_def Let_def
  by (auto split: prod.splits sum.splits)

lemma final_products_404:
  "fst (final_products w req) = Inl (HTTPException 404 d) \<longleftrightarrow>
     upper (unicode_upper w) (req_marketplace req) \<in> set (map fst DOMAIN_MAP) \<and>
     (\<exists>asins t1.
        get_seller_asins w (req_seller_id req) (upper (unicode_upper w) (req_marketplace req))
          MAX_PRODUCTS (req_category_id req) = (Inr asins, t1) \<and>
        (asins = [] \<and> d = no_asins_detail req \<or>
         asins \<noteq> [] \<and>
         (\<exists>products t2.
            get_product_details_batch w asins (upper (unicode_upper w) (req_marketplace req))
              = (Inr products, t2) \<and>
            fst (reconcile w (upper (unicode_upper w) (req_marketplace req))
                   (requested_category_id_str req) products) = [] \<and>
            requested_category_id_str req \<noteq> None \<and> d = no_match_detail req)))"
  unfolding final_products_def Let_def
  by (auto split: prod.splits sum.splits if_splits)

lemma details_distinct: "no_asins_detail req \<noteq> no_match_detail req'"
  by (simp add: no_asins_detail_def no_match_detail_def ascii_def Let_def)

text \<open>
  Claim C5, as the code has it. The endpoint ends with status 404 in exactly two
  situations: discovery answered with no identifier, and the detail is
  \<open>no_asins_detail\<close>; or discovery and enrichment answered, no record passed the strict
  filter and a category other than 0 was requested (so that \<open>requested_category_id_str\<close>
  is set), and the detail is \<open>no_match_detail\<close>. The two details differ, whatever the
  requests.
\<close>

theorem not_found_at_two_points:
  "(fst (analyze_seller w req) = Inl (HTTPException 404 d) \<longleftrightarrow>
     upper (unicode_upper w) (req_marketplace req) \<in> set (map fst DOMAIN_MAP) \<and>
     (\<exists>asins t1.
        get_seller_asins w (req_seller_id req) (upper (unicode_upper w) (req_marketplace req))
          MAX_PRODUCTS (req_category_id req) = (Inr asins, t1) \<and>
        (asins = [] \<and> d = no_asins_detail req \<or>
         asins \<noteq> [] \<and>
         (\<exists>products t2.
            get_product_details_batch w asins (upper (unicode_upper w) (req_marketplace req))
              = (Inr products, t2) \<and>
            fst (reconcile w (upper (unicode_upper w) (req_marketplace req))
                   (requested_category_id_str req) products) = [] \<and>
            requested_category_id_str req \<noteq> None \<and> d = no_match_detail req)))) \<and>
   no_asins_detail req \<noteq> no_match_detail req'"
  by (simp only: analyze_seller_HTTPException final_products_404 details_distinct
        not_False_eq_True simp_thms)

theorem not_found_at_two_points_witness:
  "fst (analyze_seller (demo_env (\<lambda>c. Inr []) (Inr []) http_500) (request ''US'' None))
     = Inl (HTTPException 404 (ascii ''No ASINs found for this seller.'')) \<and>
   fst (analyze_seller (two_categories_env http_500) (request ''US'' (Some 300)))
     = Inl (HTTPException 404
         (ascii ''No products matched the Seller ID and the strict filter for Category ID 300 after fetching.''))"
  using not_found_at_two_points
      [of "demo_env (\<lambda>c. Inr []) (Inr []) http_500" "request ''US'' None"
          "ascii ''No ASINs found for this seller.''"]
    not_found_at_two_points
      [of "two_categories_env http_500" "request ''US'' (Some 300)"
          "ascii ''No products matched the Seller ID and the strict filter for Category ID 300 after fetching.''"]
  by (simp add: eval_defs two_categories_env_def)

text \<open>
  The claim as stated (a not-found failure for an empty post-filter set when a category
  filter was requested) fails for a request with the category 0: discovery lists \<open>A1\<close>,
  its snapshot has no identifier and is skipped, the post-filter set is empty, and the
  request ends with a response of no products instead of a 404.
\<close>

theorem no_not_found_for_category_zero:
  "req_category_id (request ''US'' (Some 0)) = Some 0 \<and>
   fst (final_products
          (demo_env (\<lambda>c. Inr [ascii ''A1''])
             (Inr [(snapshot ''A1'' (Some 100) None)\<lparr> raw_asin := None \<rparr>]) http_500)
          (request ''US'' (Some 0))) = Inr [] \<and>
   (case fst (analyze_seller
          (demo_env (\<lambda>c. Inr [ascii ''A1''])
             (Inr [(snapshot ''A1'' (Some 100) None)\<lparr> raw_asin := None \<rparr>]) http_500)
          (request ''US'' (Some 0))) of
      Inl f \<Rightarrow> None
    | Inr res \<Rightarrow> Some (Total_Products res, Products res)) = Some (0, [])"
  by (simp add: eval_defs)

section \<open>Marketplace validation\<close>

lemma domain_keys:
  "set (map fst DOMAIN_MAP) =
     {ascii ''US'', ascii ''UK'', ascii ''DE'', ascii ''FR'', ascii ''JP'', ascii ''CA''}"
  by (simp add: DOMAIN_MAP_def)

lemma upper_cp_fold: "c < 128 \<Longrightarrow> upper_cp uc (fold_cp c) = upper_cp uc c"
  by (auto simp: upper_cp_def fold_cp_def)

lemma upper_fold: "list_all (\<lambda>c. c < 128) s \<Longrightarrow> upper uc (map fold_cp s) = upper uc s"
  by (induction s) (simp_all add: upper_def upper_cp_fold)

lemma upper_caseless: "ascii_caseless_eq s t \<Longrightarrow> upper uc s = upper uc t"
  using upper_fold [of s uc] upper_fold [of t uc]
  by (simp add: ascii_caseless_eq_def)

lemma final_products_400:
  "upper (unicode_upper w) (req_marketplace req) \<in> set (map fst DOMAIN_MAP) \<Longrightarrow>
   fst (final_products w req) \<noteq> Inl (HTTPException 400 d)"
  unfolding final_products_def Let_def
  by (auto split: prod.splits sum.splits if_splits)

lemma analyze_seller_invalid:
  "upper (unicode_upper w) (req_marketplace req) \<notin> set (map fst DOMAIN_MAP) \<Longrightarrow>
   analyze_seller w req =
     (Inl (HTTPException 400
            (ascii ''Unsupported marketplace '' @ [39] @ req_marketplace req @ [39]
             @ ascii ''. Use one of: '' @ repr_keys (map fst DOMAIN_MAP))), [])"
  by (simp add: analyze_seller_def final_products_def Let_def)

lemma upper_ascii:
  "list_all (\<lambda>c. c < 128) s \<Longrightarrow>
   upper uc s = map (\<lambda>c. if 97 \<le> c \<and> c \<le> 122 then c - 32 else c) s"
  by (induction s) (simp_all add: upper_def upper_cp_def)

lemma fold_after_upper:
  "map fold_cp (map (\<lambda>c. if 97 \<le> c \<and> c \<le> 122 then c - 32 else c) s) = map fold_cp s"
  by (induction s) (auto simp: fold_cp_def)

lemma ascii_after_upper:
  "list_all (\<lambda>c. c < 128) (s :: pystr) \<Longrightarrow>
   list_all (\<lambda>c. c < 128) (map (\<lambda>c. if 97 \<le> c \<and> c \<le> 122 then c - 32 else c) s)"
  by (induction s) auto

lemma upper_key:
  "k \<in> {ascii ''US'', ascii ''UK'', ascii ''DE'', ascii ''FR'', ascii ''JP'', ascii ''CA''} \<Longrightarrow>
   upper uc k = k"
  by (auto simp: upper_def upper_cp_def ascii_def)

lemma caseless_key_accepted:
  assumes "ascii_caseless_eq m k"
    and "k \<in> {ascii ''US'', ascii ''UK'', ascii ''DE'', ascii ''FR'', ascii ''JP'', ascii ''CA''}"
  shows "upper uc m = k"
  using upper_caseless [OF assms(1), of uc] upper_key [OF assms(2), of uc] by simp

lemma upper_caseless_conv:
  assumes "list_all (\<lambda>c. c < 128) m"
  shows "ascii_caseless_eq m (upper uc m)"
  using assms upper_ascii [OF assms, of uc] fold_after_upper [of m] ascii_after_upper [OF assms]
  by (simp add: ascii_caseless_eq_def)

text \<open>
  Claim C6. The endpoint upper-cases the marketplace and looks it up among the six keys
  \<open>US\<close>, \<open>UK\<close>, \<open>DE\<close>, \<open>FR\<close>, \<open>JP\<close> and \<open>CA\<close>. When it is none of them the request
  ends with status 400 and the trace of provider calls is empty: no discovery, enrichment,
  category lookup or eligibility call was made. When it is one of them the request never
  ends with status 400. Two marketplaces that are equal up to the case of ASCII letters
  have the same upper-casing. So a marketplace that equals a key up to the case of its
  letters is upper-cased to that key and is accepted, and an ASCII marketplace that equals
  no key up to case is rejected, before any call.
\<close>

theorem marketplace_validation:
  "(upper (unicode_upper w) (req_marketplace req)
      \<notin> {ascii ''US'', ascii ''UK'', ascii ''DE'', ascii ''FR'', ascii ''JP'', ascii ''CA''} \<longrightarrow>
      analyze_seller w req =
        (Inl (HTTPException 400
               (ascii ''Unsupported marketplace '' @ [39] @ req_marketplace req @ [39]
                @ ascii ''. Use one of: '' @ repr_keys (map fst DOMAIN_MAP))), [])) \<and>
   (upper (unicode_upper w) (req_marketplace req)
      \<in> {ascii ''US'', ascii ''UK'', ascii ''DE'', ascii ''FR'', ascii ''JP'', ascii ''CA''} \<longrightarrow>
      (\<forall>d. fst (analyze_seller w req) \<noteq> Inl (HTTPException 400 d))) \<and>
   (ascii_caseless_eq (req_marketplace req) (req_marketplace req') \<longrightarrow>
      upper (unicode_upper w) (req_marketplace req) = upper (unicode_upper w) (req_marketplace req')) \<and>
   (k \<in> {ascii ''US'', ascii ''UK'', ascii ''DE'', ascii ''FR'', ascii ''JP'', ascii ''CA''} \<and>
    ascii_caseless_eq (req_marketplace req) k \<longrightarrow>
      upper (unicode_upper w) (req_marketplace req) = k \<and>
      (\<forall>d. fst (analyze_seller w req) \<noteq> Inl (HTTPException 400 d))) \<and>
   (list_all (\<lambda>c. c < 128) (req_marketplace req) \<and>
    list_all (\<lambda>k. \<not> ascii_caseless_eq (req_marketplace req) k)
      [ascii ''US'', ascii ''UK'', ascii ''DE'', ascii ''FR'', ascii ''JP'', ascii ''CA''] \<longrightarrow>
      analyze_seller w req =
        (Inl (HTTPException 400
               (ascii ''Unsupported marketplace '' @ [39] @ req_marketplace req @ [39]
                @ ascii ''. Use one of: '' @ repr_keys (map fst DOMAIN_MAP))), []))"
proof (intro conjI impI allI)
  assume "upper (unicode_upper w) (req_marketplace req)
      \<notin> {ascii ''US'', ascii ''UK'', ascii ''DE'', ascii ''FR'', ascii ''JP'', ascii ''CA''}"
  then have "upper (unicode_upper w) (req_marketplace req) \<notin> set (map fst DOMAIN_MAP)"
    unfolding domain_keys .
  then show "analyze_seller w req =
        (Inl (HTTPException 400
               (ascii ''Unsupported marketplace '' @ [39] @ req_marketplace req @ [39]
                @ ascii ''. Use one of: '' @ repr_keys (map fst DOMAIN_MAP))), [])"
    by (rule analyze_seller_invalid)
next
  fix d
  assume "upper (unicode_upper w) (req_marketplace req)
      \<in> {ascii ''US'', ascii ''UK'', ascii ''DE'', ascii ''FR'', ascii ''JP'', ascii ''CA''}"
  then have "upper (unicode_upper w) (req_marketplace req) \<in> set (map fst DOMAIN_MAP)"
    unfolding domain_keys .
  from final_products_400 [OF this]
  show "fst (analyze_seller w req) \<noteq> Inl (HTTPException 400 d)"
    by (simp add: analyze_seller_HTTPException)
next
  assume "ascii_caseless_eq (req_marketplace req) (req_marketplace req')"
  then show "upper (unicode_upper w) (req_marketplace req)
     = upper (unicode_upper w) (req_marketplace req')"
    by (rule upper_caseless)
next
  assume a: "k \<in> {ascii ''US'', ascii ''UK'', ascii ''DE'', ascii ''FR'', ascii ''JP'', ascii ''CA''} \<and>
    ascii_caseless_eq (req_marketplace req) k"
  then show "upper (unicode_upper w) (req_marketplace req) = k"
    using caseless_key_accepted by blast
next
  fix d
  assume a: "k \<in> {ascii ''US'', ascii ''UK'', ascii ''DE'', ascii ''FR'', ascii ''JP'', ascii ''CA''} \<and>
    ascii_caseless_eq (req_marketplace req) k"
  then have "upper (unicode_upper w) (req_marketplace req) = k"
    using caseless_key_accepted by blast
  with a have "upper (unicode_upper w) (req_marketplace req) \<in> set (map fst DOMAIN_MAP)"
    unfolding domain_keys by blast
  from final_products_400 [OF this]
  show "fst (analyze_seller w req) \<noteq> Inl (HTTPException 400 d)"
    by (simp add: analyze_seller_HTTPException)
next
  assume a: "list_all (\<lambda>c. c < 128) (req_marketplace req) \<and>
    list_all (\<lambda>k. \<not> ascii_caseless_eq (req_marketplace req) k)
      [ascii ''US'', ascii ''UK'', ascii ''DE'', ascii ''FR'', ascii ''JP'', ascii ''CA'']"
  then have c: "ascii_caseless_eq (req_marketplace req)
      (upper (unicode_upper w) (req_marketplace req))"
    by (simp add: upper_caseless_conv)
  have "upper (unicode_upper w) (req_marketplace req) \<notin> set (map fst DOMAIN_MAP)"
  proof
    assume "upper (unicode_upper w) (req_marketplace req) \<in> set (map fst DOMAIN_MAP)"
    then have "upper (unicode_upper w) (req_marketplace req)
      \<in> set [ascii ''US'', ascii ''UK'', ascii ''DE'', ascii ''FR'', ascii ''JP'', ascii ''CA'']"
      unfolding domain_keys by simp
    with a have "\<not> ascii_caseless_eq (req_marketplace req)
      (upper (unicode_upper w) (req_marketplace req))"
      unfolding list_all_iff by blast
    with c show False by simp
  qed
  then show "analyze_seller w req =
        (Inl (HTTPException 400
               (ascii ''Unsupported marketplace '' @ [39] @ req_marketplace req @ [39]
                @ ascii ''. Use one of: '' @ repr_keys (map fst DOMAIN_MAP))), [])"
    by (rule analyze_seller_invalid)
qed

theorem marketplace_validation_witness:
  "analyze_seller (two_categories_env http_500) (request ''xx'' None)
     = (Inl (HTTPException 400
          (ascii ''Unsupported marketplace 'xx'. Use one of: ['US', 'UK', 'DE', 'FR', 'JP', 'CA']'')), []) \<and>
   upper (unicode_upper (two_categories_env http_500)) (ascii ''uK'') = ascii ''UK'' \<and>
   (\<forall>d. fst (analyze_seller (two_categories_env http_500) (request ''uK'' None))
           \<noteq> Inl (HTTPException 400 d)) \<and>
   (case fst (analyze_seller (two_categories_env http_500) (request ''uK'' None)) of
      Inl f \<Rightarrow> [] | Inr res \<Rightarrow> Marketplace res) = ascii ''UK'' \<and>
   upper (unicode_upper (two_categories_env http_500)) (ascii ''Uk'') = ascii ''UK''"
proof -
  let ?w = "two_categories_env http_500"
  have x: "list_all (\<lambda>c. c < 128) (req_marketplace (request ''xx'' None)) \<and>
    list_all (\<lambda>k. \<not> ascii_caseless_eq (req_marketplace (request ''xx'' None)) k)
      [ascii ''US'', ascii ''UK'', ascii ''DE'', ascii ''FR'', ascii ''JP'', ascii ''CA'']"
    by (simp add: request_def ascii_caseless_eq_def fold_cp_def ascii_def)
  have u: "ascii ''UK'' \<in> {ascii ''US'', ascii ''UK'', ascii ''DE'', ascii ''FR'', ascii ''JP'', ascii ''CA''} \<and>
    ascii_caseless_eq (req_marketplace (request ''uK'' None)) (ascii ''UK'')"
    by (simp add: request_def ascii_caseless_eq_def fold_cp_def ascii_def)
  have v: "ascii_caseless_eq (req_marketplace (request ''uK'' None)) (req_marketplace (request ''Uk'' None))"
    by (simp add: request_def ascii_caseless_eq_def fold_cp_def ascii_def)
  note th1 = marketplace_validation [of ?w "request ''xx'' None"]
  note th2 = marketplace_validation [of ?w "request ''uK'' None" "request ''Uk'' None" "ascii ''UK''"]
  from th1 x have 1: "analyze_seller ?w (request ''xx'' None) =
        (Inl (HTTPException 400
               (ascii ''Unsupported marketplace '' @ [39] @ req_marketplace (request ''xx'' None) @ [39]
                @ ascii ''. Use one of: '' @ repr_keys (map fst DOMAIN_MAP))), [])"
    by blast
  from th2 u have 2: "upper (unicode_upper ?w) (req_marketplace (request ''uK'' None)) = ascii ''UK''"
    and 3: "\<forall>d. fst (analyze_seller ?w (request ''uK'' None)) \<noteq> Inl (HTTPException 400 d)"
    by blast+
  from th2 v have 4: "upper (unicode_upper ?w) (req_marketplace (request ''uK'' None))
      = upper (unicode_upper ?w) (req_marketplace (request ''Uk'' None))" by blast
  have 5: "(case fst (analyze_seller ?w (request ''uK'' None)) of
      Inl f \<Rightarrow> [] | Inr res \<Rightarrow> Marketplace res) = ascii ''UK''"
    by (simp add: eval_defs two_categories_env_def)
  from 1 have x1: "analyze_seller ?w (request ''xx'' None)
     = (Inl (HTTPException 400
          (ascii ''Unsupported marketplace 'xx'. Use one of: ['US', 'UK', 'DE', 'FR', 'JP', 'CA']'')), [])"
    by (simp add: request_def repr_keys_def DOMAIN_MAP_def ascii_def)
  from 2 4 have x2: "upper (unicode_upper ?w) (ascii ''uK'') = ascii ''UK''"
    and x4: "upper (unicode_upper ?w) (ascii ''Uk'') = ascii ''UK''"
    by (simp_all add: request_def)
  from x1 x2 3 5 x4 show ?thesis by (intro conjI)
qed

section \<open>The category id 0\<close>

lemma str_int_0: "str_int 0 = ascii ''0''"
  by (simp add: str_int_def digits.simps [of 0] ascii_def)

lemma zero_discovery:
  assumes z: "req_category_id req = Some 0"
    and pf: "product_finder w (req_seller_id req) MAX_PRODUCTS (Some (ascii ''0''))
                (upper (unicode_upper w) (req_marketplace req))
             = product_finder w (req_seller_id req) MAX_PRODUCTS None
                (upper (unicode_upper w) (req_marketplace req))"
  shows "fst (final_products w req) = fst (final_products w (req\<lparr> req_category_id := None \<rparr>)) \<and>
         tl (snd (final_products w req)) = tl (snd (final_products w (req\<lparr> req_category_id := None \<rparr>)))"
  using z pf
  unfolding final_products_def get_seller_asins_def Let_def
  by (simp add: str_int_0 requested_category_id_str_def no_asins_detail_def
        split: sum.splits prod.splits)

lemma final_products_trace_nonempty:
  "final_products w req = (Inr kept, t) \<Longrightarrow> t \<noteq> []"
  unfolding final_products_def get_seller_asins_def Let_def
  by (auto split: if_splits sum.splits prod.splits)

lemma zero_analyze:
  assumes z: "req_category_id req = Some 0"
    and pf: "product_finder w (req_seller_id req) MAX_PRODUCTS (Some (ascii ''0''))
                (upper (unicode_upper w) (req_marketplace req))
             = product_finder w (req_seller_id req) MAX_PRODUCTS None
                (upper (unicode_upper w) (req_marketplace req))"
  shows "fst (analyze_seller w req) = fst (analyze_seller w (req\<lparr> req_category_id := None \<rparr>)) \<and>
         tl (snd (analyze_seller w req)) = tl (snd (analyze_seller w (req\<lparr> req_category_id := None \<rparr>)))"
proof -
  let ?r = "req\<lparr> req_category_id := None \<rparr>"
  from zero_discovery [OF z pf]
  have f: "fst (final_products w req) = fst (final_products w ?r)"
    and s: "tl (snd (final_products w req)) = tl (snd (final_products w ?r))" by simp_all
  obtain x t where a: "final_products w req = (x, t)" by (cases "final_products w req")
  obtain x' t' where b: "final_products w ?r = (x', t')" by (cases "final_products w ?r")
  from f a b have x: "x' = x" by simp
  from s a b have t: "tl t = tl t'" by simp
  show ?thesis
  proof (cases x)
    case (Inl e)
    with a b x t show ?thesis by (simp add: analyze_seller_def Let_def)
  next
    case (Inr kept)
    with a b x have ne: "t \<noteq> []" "t' \<noteq> []"
      using final_products_trace_nonempty by blast+
    with Inr a b x t z show ?thesis
      by (simp add: analyze_seller_def Let_def split: sum.splits prod.splits)
  qed
qed

text \<open>
  Claim C10, as the code has it. For a request whose category id is 0 the local filter is
  off: \<open>requested_category_id_str\<close> is \<open>None\<close>, the strict filter keeps every record
  whatever its category, the only detail a 404 can carry is that of the empty discovery,
  and the response echoes the filter as \<open>None\<close>. Discovery is the one step that tells
  the two requests apart: it sends the category \<open>0\<close> to the provider. When the provider
  answers that query as it answers the query without a category, the outcome equals that
  of the request without a category, and so do the calls after the first.
\<close>

theorem zero_category_after_discovery:
  assumes z: "req_category_id req = Some 0"
  shows "requested_category_id_str req = None \<and>
     (\<forall>m products.
        map asin (fst (reconcile w m (requested_category_id_str req) products)) = map asin products \<and>
        map category_id (fst (reconcile w m (requested_category_id_str req) products))
          = map category_id products) \<and>
     (\<forall>d. fst (analyze_seller w req) = Inl (HTTPException 404 d) \<longrightarrow>
          d = ascii ''No ASINs found for this seller.'') \<and>
     fst (analyze_seller w req) \<noteq> Inl (HTTPException 404 (no_match_detail req)) \<and>
     (\<forall>res t. analyze_seller w req = (Inr res, t) \<longrightarrow>
          Filter_Category_ID res = StrVal (ascii ''None'')) \<and>
     (product_finder w (req_seller_id req) MAX_PRODUCTS (Some (ascii ''0''))
          (upper (unicode_upper w) (req_marketplace req))
        = product_finder w (req_seller_id req) MAX_PRODUCTS None
            (upper (unicode_upper w) (req_marketplace req)) \<longrightarrow>
      fst (analyze_seller w req) = fst (analyze_seller w (req\<lparr> req_category_id := None \<rparr>)) \<and>
      tl (snd (analyze_seller w req))
        = tl (snd (analyze_seller w (req\<lparr> req_category_id := None \<rparr>))))"
proof -
  from z have rq: "requested_category_id_str req = None"
    by (simp add: requested_None)
  have detail: "no_asins_detail req = ascii ''No ASINs found for this seller.''"
    using z by (simp add: no_asins_detail_def ascii_def)
  have nf: "d = ascii ''No ASINs found for this seller.''"
    if "fst (analyze_seller w req) = Inl (HTTPException 404 d)" for d
    using that rq detail
    by (auto simp: analyze_seller_HTTPException final_products_404)
  have nm: "fst (analyze_seller w req) \<noteq> Inl (HTTPException 404 (no_match_detail req))"
    using nf [of "no_match_detail req"] detail details_distinct [of req req] by auto
  have echo: "Filter_Category_ID res = StrVal (ascii ''None'')"
    if "analyze_seller w req = (Inr res, t)" for res t
    using analyze_seller_Inr [OF that] z by auto
  from rq reconcile_None_all nf nm echo zero_analyze [OF z]
  show ?thesis by simp
qed

theorem zero_category_after_discovery_witness:
  "requested_category_id_str (request ''US'' (Some 0)) = None \<and>
   fst (analyze_seller (two_categories_env http_500) (request ''US'' (Some 0)))
     = fst (analyze_seller (two_categories_env http_500) (request ''US'' None)) \<and>
   tl (snd (analyze_seller (two_categories_env http_500) (request ''US'' (Some 0))))
     = tl (snd (analyze_seller (two_categories_env http_500) (request ''US'' None)))"
proof -
  have z: "req_category_id (request ''US'' (Some 0)) = Some 0"
    by (simp add: request_def)
  have r: "(request ''US'' (Some 0))\<lparr> req_category_id := None \<rparr> = request ''US'' None"
    by (simp add: request_def)
  have pf: "product_finder (two_categories_env http_500) s n (Some (ascii ''0'')) m
      = product_finder (two_categories_env http_500) s n None m" for s n m
    by (simp add: two_categories_env_def demo_env_def)
  from zero_category_after_discovery [OF z, of "two_categories_env http_500"] pf
  show ?thesis unfolding r by simp
qed

text \<open>
  The claim as stated (a category id of 0 is treated exactly as no category filter)
  fails at discovery: a provider that lists \<open>A1\<close> for the query without a category and
  nothing for the category \<open>0\<close> gives a 404 for the request with the category 0, after
  a discovery call that carries the category \<open>0\<close>, and a response with \<open>A1\<close> for the
  request without a category.
\<close>

theorem zero_category_differs_at_discovery:
  "fst (analyze_seller
          (demo_env (\<lambda>c. if c = None then Inr [ascii ''A1''] else Inr [])
             (Inr [snapshot ''A1'' (Some 100) None]) http_500)
          (request ''US'' (Some 0)))
     = Inl (HTTPException 404 (ascii ''No ASINs found for this seller.'')) \<and>
   snd (analyze_seller
          (demo_env (\<lambda>c. if c = None then Inr [ascii ''A1''] else Inr [])
             (Inr [snapshot ''A1'' (Some 100) None]) http_500)
          (request ''US'' (Some 0)))
     = [ProductFinder (ascii ''S1'') 30 (Some (ascii ''0'')) (ascii ''US'')] \<and>
   (case fst (analyze_seller
          (demo_env (\<lambda>c. if c = None then Inr [ascii ''A1''] else Inr [])
             (Inr [snapshot ''A1'' (Some 100) None]) http_500)
          (request ''US'' None)) of
      Inl f \<Rightarrow> []
    | Inr res \<Rightarrow> map ASIN (Products res)) = [ascii ''A1'']"
  by (simp add: eval_defs)

section \<open>The eligibility provider\<close>



lemma format_products_Eligibility:
  "list_all (\<lambda>row. Eligibility row = status (parse_eligibility_result ed (ASIN row)) \<and>
                   Comment row = reason (parse_eligibility_result ed (ASIN row)))
     (format_products ed kept)"
  by (simp add: format_products_def format_row_def Let_def list_all_iff)



section \<open>The verdict of a record\<close>

lemma find_verdict_objs:
  "list_all is_obj items \<Longrightarrow>
   find_verdict items a =
     Inr (case find (matches a) items of
            None \<Rightarrow> None
          | Some item \<Rightarrow> Some (if truthy (eligible_flag item) then eligible else restricted))"
proof (induction items)
  case Nil
  then show ?case by simp
next
  case (Cons item items)
  then show ?case
    by (cases item) (simp_all add: is_obj_def matches_def eligible_flag_def Let_def)
qed

lemma find_verdict_Some:
  "find_verdict items a = Inr (Some v) \<Longrightarrow>
   \<exists>item. find (matches a) items = Some item \<and>
          v = (if truthy (eligible_flag item) then eligible else restricted)"
proof (induction items)
  case Nil
  then show ?case by simp
next
  case (Cons item items)
  then show ?case
    by (cases item) (auto simp: matches_def eligible_flag_def Let_def split: if_splits)
qed

lemma status_distinct:
  "STATUS_NOT_FOUND \<noteq> STATUS_ELIGIBLE" "STATUS_NOT_FOUND \<noteq> STATUS_RESTRICTED"
  "STATUS_PARSE_ERROR \<noteq> STATUS_ELIGIBLE" "STATUS_PARSE_ERROR \<noteq> STATUS_RESTRICTED"
  "STATUS_API_ERROR \<noteq> STATUS_ELIGIBLE" "STATUS_API_ERROR \<noteq> STATUS_RESTRICTED"
  "STATUS_ELIGIBLE \<noteq> STATUS_RESTRICTED"
  by (simp_all add: STATUS_NOT_FOUND_def STATUS_ELIGIBLE_def STATUS_RESTRICTED_def
        STATUS_PARSE_ERROR_def STATUS_API_ERROR_def)

lemma status_simps:
  "status eligible = STATUS_ELIGIBLE" "status restricted = STATUS_RESTRICTED"
  "status not_found = STATUS_NOT_FOUND" "status (parse_error m) = STATUS_PARSE_ERROR"
  by (simp_all add: eligible_def restricted_def not_found_def parse_error_def)

lemma parse_success_cases:
  "parse_eligibility_result (Success j) a = not_found \<or>
   (\<exists>m. parse_eligibility_result (Success j) a = parse_error m) \<or>
   (\<exists>items item. j = JList items \<and> find (matches a) items = Some item \<and>
      parse_eligibility_result (Success j) a
        = (if truthy (eligible_flag item) then eligible else restricted))"
proof (cases j)
  case (JList items)
  show ?thesis
  proof (cases "find_verdict items a")
    case (Inl m)
    with JList have "parse_eligibility_result (Success j) a = parse_error m"
      by (simp add: parse_eligibility_result_def)
    then show ?thesis by blast
  next
    case (Inr r)
    show ?thesis
    proof (cases r)
      case None
      with Inr JList have "parse_eligibility_result (Success j) a = not_found"
        by (simp add: parse_eligibility_result_def)
      then show ?thesis by blast
    next
      case (Some v)
      with Inr find_verdict_Some [of items a v] obtain item where
        "find (matches a) items = Some item"
        "v = (if truthy (eligible_flag item) then eligible else restricted)" by blast
      with Some Inr JList have "j = JList items \<and> find (matches a) items = Some item \<and>
        parse_eligibility_result (Success j) a
          = (if truthy (eligible_flag item) then eligible else restricted)"
        by (simp add: parse_eligibility_result_def)
      then show ?thesis by blast
    qed
  qed
qed (simp_all add: parse_eligibility_result_def)

lemma reconcile_no_post: "filter is_post (snd (reconcile w m rq ps)) = []"
  by (induction ps) (simp_all add: Let_def get_category_name_def split: category.splits)

lemma final_products_no_post: "filter is_post (snd (final_products w req)) = []"
proof -
  have r: "filter is_post t3 = []" if "reconcile w m rq ps = (kept, t3)" for m rq ps kept t3
    using reconcile_no_post [of w m rq ps] that by simp
  show ?thesis
    unfolding final_products_def Let_def get_seller_asins_def get_product_details_batch_def
    by (auto split: prod.splits sum.splits if_splits dest: r)
qed

lemma check_one_post:
  "length (filter is_post (snd (check_seller_eligibility w tok s as m))) \<le> 1"
  by (simp add: check_seller_eligibility_def Let_def)

lemma find_verdict_first:
  "find_verdict items a =
     (case find (\<lambda>item. matches a item \<or> \<not> is_obj item) items of
        None \<Rightarrow> Inr None
      | Some item \<Rightarrow>
          if is_obj item
          then Inr (Some (if truthy (eligible_flag item) then eligible else restricted))
          else Inl (attribute_error item))"
proof (induction items)
  case Nil
  then show ?case by simp
next
  case (Cons item items)
  then show ?case
    by (cases item) (simp_all add: is_obj_def matches_def eligible_flag_def Let_def)
qed

lemma truthy_table:
  "truthy v \<longleftrightarrow> v \<notin> {JNull, JBool False, JInt 0, JStr [], JList [], JObj []}"
  by (cases v) auto

lemma labels_distinct:
  "distinct [STATUS_ELIGIBLE, STATUS_RESTRICTED, STATUS_NOT_FOUND, STATUS_PARSE_ERROR,
     STATUS_API_ERROR]"
  by (simp add: STATUS_NOT_FOUND_def STATUS_ELIGIBLE_def STATUS_RESTRICTED_def
        STATUS_PARSE_ERROR_def STATUS_API_ERROR_def)

lemma parse_list:
  "parse_eligibility_result (Success (JList items)) a =
     (case find (\<lambda>item. matches a item \<or> \<not> is_obj item) items of
        None \<Rightarrow> not_found
      | Some item \<Rightarrow>
          if is_obj item
          then (if truthy (eligible_flag item) then eligible else restricted)
          else parse_error (attribute_error item))"
  by (simp add: parse_eligibility_result_def find_verdict_first split: option.splits)

lemma parse_no_list:
  "(\<forall>items. j \<noteq> JList items) \<Longrightarrow> parse_eligibility_result (Success j) a = not_found"
  by (cases j) (simp_all add: parse_eligibility_result_def)

lemma parse_first_item:
  assumes "map_of kvs (ascii ''asin'') = Some (JStr a)"
  shows "parse_eligibility_result (Success (JList (JObj kvs # rest))) a =
     (case map_of kvs (ascii ''isEligible'') of
        None \<Rightarrow> restricted
      | Some v \<Rightarrow> if truthy v then eligible else restricted)"
  using assms
  by (simp add: parse_eligibility_result_def Let_def split: option.splits)

text \<open>
  Claim C7, as the code has it. The rows of a response take their eligibility status and
  comment from the one eligibility answer of the request (at most one eligibility call is
  made, on the identifiers of the rows), each by its own identifier. In a successful
  answer that is a list, the first item that is about the identifier (an object whose
  \<open>asin\<close> is exactly that string) or that is no object decides: an object gives Eligible
  when its \<open>isEligible\<close> is truthy and Restricted when it is \<open>False\<close>, another falsy value
  or absent; an item that is no object gives the status \<open>Parse Error\<close>, also for an
  identifier that a later item is about. An identifier that no item is about gets
  \<open>Not Found\<close> when every item is an object, and an answer that is no list gives
  \<open>Not Found\<close> for every identifier. The five labels are distinct. The function is total,
  so a verdict is always returned and the request goes on.
\<close>

theorem verdict_by_exact_match:
  "(analyze_seller w req = (Inr res, t) \<longrightarrow>
      (\<exists>ed. fst (check_seller_eligibility w (OPTISAGE_TOKEN w) (req_seller_id req)
                   (map ASIN (Products res)) (Marketplace res)) = Inr ed \<and>
            length (filter is_post t) \<le> 1 \<and>
            list_all (\<lambda>row. Eligibility row = status (parse_eligibility_result ed (ASIN row)) \<and>
                             Comment row = reason (parse_eligibility_result ed (ASIN row)))
              (Products res))) \<and>
   parse_eligibility_result (Success (JList items)) a =
     (case find (\<lambda>item. matches a item \<or> \<not> is_obj item) items of
        None \<Rightarrow> not_found
      | Some item \<Rightarrow>
          if is_obj item
          then (if truthy (eligible_flag item) then eligible else restricted)
          else parse_error (attribute_error item)) \<and>
   ((\<forall>items. j \<noteq> JList items) \<longrightarrow> parse_eligibility_result (Success j) a = not_found) \<and>
   (map_of kvs (ascii ''asin'') = Some (JStr a) \<and>
    map_of kvs (ascii ''isEligible'') = Some (JBool True) \<longrightarrow>
      parse_eligibility_result (Success (JList (JObj kvs # rest))) a = eligible) \<and>
   (map_of kvs (ascii ''asin'') = Some (JStr a) \<and>
    (map_of kvs (ascii ''isEligible'') = None \<or>
     map_of kvs (ascii ''isEligible'') = Some (JBool False)) \<longrightarrow>
      parse_eligibility_result (Success (JList (JObj kvs # rest))) a = restricted) \<and>
   (map_of kvs (ascii ''asin'') = Some (JStr a) \<and> map_of kvs (ascii ''isEligible'') = Some v \<longrightarrow>
      parse_eligibility_result (Success (JList (JObj kvs # rest))) a
        = (if v \<in> {JNull, JBool False, JInt 0, JStr [], JList [], JObj []}
           then restricted else eligible)) \<and>
   (map_of kvs (ascii ''asin'') \<noteq> Some (JStr a) \<longrightarrow>
      parse_eligibility_result (Success (JList (JObj kvs # rest))) a
        = parse_eligibility_result (Success (JList rest)) a) \<and>
   parse_eligibility_result (Success (JList [])) a = not_found \<and>
   (status (parse_eligibility_result (Success j) a) = STATUS_ELIGIBLE \<or>
    status (parse_eligibility_result (Success j) a) = STATUS_RESTRICTED \<longrightarrow>
      (\<exists>items item. j = JList items \<and> find (matches a) items = Some item \<and>
         parse_eligibility_result (Success j) a
           = (if truthy (eligible_flag item) then eligible else restricted))) \<and>
   ((\<forall>items. j = JList items \<longrightarrow> find (matches a) items = None) \<longrightarrow>
      status (parse_eligibility_result (Success j) a) = STATUS_NOT_FOUND \<or>
      status (parse_eligibility_result (Success j) a) = STATUS_PARSE_ERROR) \<and>
   ((\<forall>items. j = JList items \<longrightarrow> find (matches a) items = None \<and> list_all is_obj items) \<longrightarrow>
      parse_eligibility_result (Success j) a = not_found) \<and>
   status eligible = STATUS_ELIGIBLE \<and> status restricted = STATUS_RESTRICTED \<and>
   status not_found = STATUS_NOT_FOUND \<and> status (parse_error m) = STATUS_PARSE_ERROR \<and>
   distinct [STATUS_ELIGIBLE, STATUS_RESTRICTED, STATUS_NOT_FOUND, STATUS_PARSE_ERROR,
     STATUS_API_ERROR]"
proof -
  have c1: "analyze_seller w req = (Inr res, t) \<longrightarrow>
      (\<exists>ed. fst (check_seller_eligibility w (OPTISAGE_TOKEN w) (req_seller_id req)
                   (map ASIN (Products res)) (Marketplace res)) = Inr ed \<and>
            length (filter is_post t) \<le> 1 \<and>
            list_all (\<lambda>row. Eligibility row = status (parse_eligibility_result ed (ASIN row)) \<and>
                             Comment row = reason (parse_eligibility_result ed (ASIN row)))
              (Products res))"
  proof
    assume a: "analyze_seller w req = (Inr res, t)"
    from analyze_seller_Inr [OF a] obtain kept t' ed t4 where
      fp: "final_products w req = (Inr kept, t')" and
      c: "check_seller_eligibility w (OPTISAGE_TOKEN w) (req_seller_id req) (map asin kept)
          (upper (unicode_upper w) (req_marketplace req)) = (Inr ed, t4)" and
      pr: "Products res = format_products ed kept" and
      mk: "Marketplace res = upper (unicode_upper w) (req_marketplace req)" and
      t: "t = t' @ t4" by blast
    from pr have as: "map ASIN (Products res) = map asin kept"
      by (simp add: format_products_ASIN)
    from c as mk have x: "fst (check_seller_eligibility w (OPTISAGE_TOKEN w) (req_seller_id req)
                     (map ASIN (Products res)) (Marketplace res)) = Inr ed" by simp
    from fp final_products_no_post [of w req] have "filter is_post t' = []" by simp
    moreover from c check_one_post [of w "OPTISAGE_TOKEN w" "req_seller_id req" "map asin kept"
        "upper (unicode_upper w) (req_marketplace req)"]
    have "length (filter is_post t4) \<le> 1" by simp
    ultimately have y: "length (filter is_post t) \<le> 1" using t by simp
    from pr format_products_Eligibility [of ed kept]
    have z: "list_all (\<lambda>row. Eligibility row = status (parse_eligibility_result ed (ASIN row)) \<and>
                               Comment row = reason (parse_eligibility_result ed (ASIN row)))
                (Products res)" by simp
    from x y z show "\<exists>ed. fst (check_seller_eligibility w (OPTISAGE_TOKEN w) (req_seller_id req)
                     (map ASIN (Products res)) (Marketplace res)) = Inr ed \<and>
              length (filter is_post t) \<le> 1 \<and>
              list_all (\<lambda>row. Eligibility row = status (parse_eligibility_result ed (ASIN row)) \<and>
                               Comment row = reason (parse_eligibility_result ed (ASIN row)))
                (Products res)" by blast
  qed
  have c4: "map_of kvs (ascii ''asin'') = Some (JStr a) \<and>
    map_of kvs (ascii ''isEligible'') = Some (JBool True) \<longrightarrow>
      parse_eligibility_result (Success (JList (JObj kvs # rest))) a = eligible"
    by (simp add: parse_first_item)
  have c5: "map_of kvs (ascii ''asin'') = Some (JStr a) \<and>
    (map_of kvs (ascii ''isEligible'') = None \<or>
     map_of kvs (ascii ''isEligible'') = Some (JBool False)) \<longrightarrow>
      parse_eligibility_result (Success (JList (JObj kvs # rest))) a = restricted"
    by (auto simp: parse_first_item)
  have c6: "map_of kvs (ascii ''asin'') = Some (JStr a) \<and> map_of kvs (ascii ''isEligible'') = Some v \<longrightarrow>
      parse_eligibility_result (Success (JList (JObj kvs # rest))) a
        = (if v \<in> {JNull, JBool False, JInt 0, JStr [], JList [], JObj []}
           then restricted else eligible)"
    using truthy_table [of v] by (auto simp: parse_first_item)
  have c7: "map_of kvs (ascii ''asin'') \<noteq> Some (JStr a) \<longrightarrow>
      parse_eligibility_result (Success (JList (JObj kvs # rest))) a
        = parse_eligibility_result (Success (JList rest)) a"
    by (simp add: parse_eligibility_result_def)
  have c8: "parse_eligibility_result (Success (JList [])) a = not_found"
    by (simp add: parse_eligibility_result_def)
  have c9: "status (parse_eligibility_result (Success j) a) = STATUS_ELIGIBLE \<or>
    status (parse_eligibility_result (Success j) a) = STATUS_RESTRICTED \<longrightarrow>
      (\<exists>items item. j = JList items \<and> find (matches a) items = Some item \<and>
         parse_eligibility_result (Success j) a
           = (if truthy (eligible_flag item) then eligible else restricted))"
    using parse_success_cases [of j a]
    by (auto simp: status_simps status_distinct)
  have c10: "(\<forall>items. j = JList items \<longrightarrow> find (matches a) items = None) \<longrightarrow>
      status (parse_eligibility_result (Success j) a) = STATUS_NOT_FOUND \<or>
      status (parse_eligibility_result (Success j) a) = STATUS_PARSE_ERROR"
    using parse_success_cases [of j a]
    by (auto simp: status_simps)
  have c11: "(\<forall>items. j = JList items \<longrightarrow> find (matches a) items = None \<and> list_all is_obj items) \<longrightarrow>
      parse_eligibility_result (Success j) a = not_found"
  proof
    assume h: "\<forall>items. j = JList items \<longrightarrow> find (matches a) items = None \<and> list_all is_obj items"
    show "parse_eligibility_result (Success j) a = not_found"
    proof (cases j)
      case (JList items)
      with h have "find (matches a) items = None" "list_all is_obj items" by simp_all
      with JList find_verdict_objs [of items a] show ?thesis
        by (simp add: parse_eligibility_result_def)
    qed (simp_all add: parse_eligibility_result_def)
  qed
  note c2 = parse_list [of items a]
  have c3: "(\<forall>items. j \<noteq> JList items) \<longrightarrow> parse_eligibility_result (Success j) a = not_found"
    by (simp add: parse_no_list)
  show ?thesis
    by (intro conjI;
        (rule c1 c2 c3 c4 c5 c6 c7 c8 c9 c10 c11 status_simps labels_distinct))
qed

theorem verdict_by_exact_match_witness:
  "(\<exists>res t. analyze_seller (two_categories_env http_200_mixed) (request ''US'' None) = (Inr res, t) \<and>
      map (\<lambda>row. (ASIN row, Eligibility row)) (Products res)
        = [(ascii ''A1'', STATUS_ELIGIBLE), (ascii ''A2'', STATUS_RESTRICTED)] \<and>
      length (filter is_post t) \<le> 1) \<and>
   parse_eligibility_result
     (Success (JList [JObj [(ascii ''asin'', JStr (ascii ''A1'')), (ascii ''isEligible'', JBool True)],
                      JObj [(ascii ''asin'', JStr (ascii ''A2'')), (ascii ''isEligible'', JBool False)]]))
     (ascii ''A1'') = eligible \<and>
   parse_eligibility_result
     (Success (JList [JObj [(ascii ''asin'', JStr (ascii ''A2'')), (ascii ''isEligible'', JBool False)]]))
     (ascii ''A2'') = restricted \<and>
   parse_eligibility_result
     (Success (JList [JObj [(ascii ''asin'', JStr (ascii ''A1''))]])) (ascii ''A1'') = restricted \<and>
   parse_eligibility_result
     (Success (JList [JObj [(ascii ''asin'', JStr (ascii ''A1'')), (ascii ''isEligible'', JBool True)]]))
     (ascii ''A3'') = not_found \<and>
   parse_eligibility_result (Success JNull) (ascii ''A1'') = not_found"
proof -
  let ?w = "two_categories_env http_200_mixed" and ?r = "request ''US'' None"
  let ?k1 = "[(ascii ''asin'', JStr (ascii ''A1'')), (ascii ''isEligible'', JBool True)]"
  let ?k2 = "[(ascii ''asin'', JStr (ascii ''A2'')), (ascii ''isEligible'', JBool False)]"
  let ?k3 = "[(ascii ''asin'', JStr (ascii ''A1''))]"
  have "\<exists>res t. analyze_seller ?w ?r = (Inr res, t) \<and>
      map (\<lambda>row. (ASIN row, Eligibility row)) (Products res)
        = [(ascii ''A1'', STATUS_ELIGIBLE), (ascii ''A2'', STATUS_RESTRICTED)]"
    by (simp add: eval_defs two_categories_env_def)
  then obtain res t where a: "analyze_seller ?w ?r = (Inr res, t)"
    and rows: "map (\<lambda>row. (ASIN row, Eligibility row)) (Products res)
        = [(ascii ''A1'', STATUS_ELIGIBLE), (ascii ''A2'', STATUS_RESTRICTED)]"
    by (elim exE conjE)
  have h1: "map_of ?k1 (ascii ''asin'') = Some (JStr (ascii ''A1'')) \<and>
      map_of ?k1 (ascii ''isEligible'') = Some (JBool True)"
    by (simp add: ascii_def)
  have h2: "map_of ?k2 (ascii ''asin'') = Some (JStr (ascii ''A2'')) \<and>
      (map_of ?k2 (ascii ''isEligible'') = None \<or>
       map_of ?k2 (ascii ''isEligible'') = Some (JBool False))"
    by (simp add: ascii_def)
  have h3: "map_of ?k3 (ascii ''asin'') = Some (JStr (ascii ''A1'')) \<and>
      (map_of ?k3 (ascii ''isEligible'') = None \<or>
       map_of ?k3 (ascii ''isEligible'') = Some (JBool False))"
    by (simp add: ascii_def)
  have h4: "\<forall>items. JList [JObj ?k1] = JList items \<longrightarrow>
      find (matches (ascii ''A3'')) items = None \<and> list_all is_obj items"
    by (simp add: matches_def is_obj_def ascii_def)
  have h5: "\<forall>items. JNull \<noteq> JList items" by simp
  from verdict_by_exact_match [of ?w ?r res t _ "ascii ''A1''" JNull ?k1 "[JObj ?k2]"] a h1
  have 1: "length (filter is_post t) \<le> 1"
    and 2: "parse_eligibility_result (Success (JList [JObj ?k1, JObj ?k2])) (ascii ''A1'') = eligible"
    by blast+
  from verdict_by_exact_match [of _ _ _ _ _ "ascii ''A2''" _ ?k2 "[]"] h2
  have 3: "parse_eligibility_result (Success (JList [JObj ?k2])) (ascii ''A2'') = restricted"
    by blast
  from verdict_by_exact_match [of _ _ _ _ _ "ascii ''A1''" JNull ?k3 "[]"] h3 h5
  have 4: "parse_eligibility_result (Success (JList [JObj ?k3])) (ascii ''A1'') = restricted"
    and 6: "parse_eligibility_result (Success JNull) (ascii ''A1'') = not_found"
    by blast+
  from verdict_by_exact_match [of _ _ _ _ _ "ascii ''A3''" "JList [JObj ?k1]"] h4
  have 5: "parse_eligibility_result (Success (JList [JObj ?k1])) (ascii ''A3'') = not_found"
    by blast
  from a rows 1 have "\<exists>res t. analyze_seller ?w ?r = (Inr res, t) \<and>
      map (\<lambda>row. (ASIN row, Eligibility row)) (Products res)
        = [(ascii ''A1'', STATUS_ELIGIBLE), (ascii ''A2'', STATUS_RESTRICTED)] \<and>
      length (filter is_post t) \<le> 1"
    by (intro exI conjI)
  with 2 3 4 5 6 show ?thesis by (intro conjI)
qed

text \<open>
  The claim as stated (the verdict is resolved by exact identifier match, and an absent
  identifier yields the Unknown verdict) fails on a successful answer whose list holds an
  item that is no object: with \<open>null\<close> before the item of \<open>A1\<close>, the identifier \<open>A1\<close>,
  which is in the answer as eligible, and the identifier \<open>A2\<close>, which is absent, both get
  the status \<open>Parse Error\<close>, in the function and in the rows of the response.
\<close>

theorem parse_error_before_match:
  "status (parse_eligibility_result
      (Success (JList [JNull,
         JObj [(ascii ''asin'', JStr (ascii ''A1'')), (ascii ''isEligible'', JBool True)]]))
      (ascii ''A1'')) = STATUS_PARSE_ERROR \<and>
   status (parse_eligibility_result
      (Success (JList [JNull,
         JObj [(ascii ''asin'', JStr (ascii ''A1'')), (ascii ''isEligible'', JBool True)]]))
      (ascii ''A2'')) = STATUS_PARSE_ERROR \<and>
   STATUS_PARSE_ERROR \<noteq> STATUS_ELIGIBLE \<and> STATUS_PARSE_ERROR \<noteq> STATUS_NOT_FOUND \<and>
   (case fst (analyze_seller (two_categories_env http_200_null_first) (request ''US'' None)) of
      Inl f \<Rightarrow> []
    | Inr res \<Rightarrow> map (\<lambda>row. (ASIN row, Eligibility row)) (Products res))
     = [(ascii ''A1'', STATUS_PARSE_ERROR), (ascii ''A2'', STATUS_PARSE_ERROR)]"
  by (simp add: eval_defs two_categories_env_def)


section \<open>Determinism\<close>

lemma get_seller_asins_same:
  "list_all (same_answer w w') (snd (get_seller_asins w s m n c)) \<Longrightarrow>
   get_seller_asins w' s m n c = get_seller_asins w s m n c"
  by (simp add: get_seller_asins_def Let_def)

lemma get_product_details_batch_same:
  "list_all (same_answer w w') (snd (get_product_details_batch w as m)) \<Longrightarrow>
   get_product_details_batch w' as m = get_product_details_batch w as m"
  by (cases "as = []") (simp_all add: get_product_details_batch_def)

lemma get_category_name_same:
  "list_all (same_answer w w') (snd (get_category_name w c m)) \<Longrightarrow>
   get_category_name w' c m = get_category_name w c m"
  by (simp add: get_category_name_def)

lemma reconcile_same:
  "list_all (same_answer w w') (snd (reconcile w m rq ps)) \<Longrightarrow>
   reconcile w' m rq ps = reconcile w m rq ps"
proof (induction ps)
  case Nil
  then show ?case by simp
next
  case (Cons p ps)
  from Cons.prems have rest: "list_all (same_answer w w') (snd (reconcile w m rq ps))"
    by (simp add: Let_def)
  have name: "get_category_name w' c m = get_category_name w c m"
    if "category_id p = CategoryId c" "c \<noteq> 0" for c
    using Cons.prems that by (intro get_category_name_same) (simp add: Let_def)
  from Cons.IH [OF rest] name show ?case
    by (simp add: Let_def split: category.splits)
qed

lemma check_seller_eligibility_same:
  "list_all (same_answer w w') (snd (check_seller_eligibility w tok s as m)) \<Longrightarrow>
   check_seller_eligibility w' tok s as m = check_seller_eligibility w tok s as m"
  by (cases "tok = []") (simp_all add: check_seller_eligibility_def Let_def)

lemma final_products_same:
  assumes u: "unicode_upper w' = unicode_upper w"
    and h: "list_all (same_answer w w') (snd (final_products w req))"
  shows "final_products w' req = final_products w req"
proof -
  let ?m = "upper (unicode_upper w) (req_marketplace req)"
  show ?thesis
  proof (cases "?m \<in> set (map fst DOMAIN_MAP)")
    case False
    with u show ?thesis by (simp add: final_products_def Let_def)
  next
    case valid: True
    obtain r1 t1 where g: "get_seller_asins w (req_seller_id req) ?m MAX_PRODUCTS
        (req_category_id req) = (r1, t1)"
      by (cases "get_seller_asins w (req_seller_id req) ?m MAX_PRODUCTS (req_category_id req)")
    have t1: "list_all (same_answer w w') t1"
      using h valid g unfolding final_products_def Let_def
      by (auto split: sum.splits prod.splits if_splits)
    with g get_seller_asins_same [of w w' "req_seller_id req" ?m MAX_PRODUCTS "req_category_id req"]
    have g': "get_seller_asins w' (req_seller_id req) ?m MAX_PRODUCTS
        (req_category_id req) = (r1, t1)" by simp
    show ?thesis
    proof (cases r1)
      case (Inl e)
      with valid u g g' show ?thesis by (simp add: final_products_def Let_def)
    next
      case (Inr asins)
      show ?thesis
      proof (cases "asins = []")
        case True
        with Inr valid u g g' show ?thesis by (simp add: final_products_def Let_def)
      next
        case ne: False
        obtain r2 t2 where b: "get_product_details_batch w asins ?m = (r2, t2)"
          by (cases "get_product_details_batch w asins ?m")
        have t2: "list_all (same_answer w w') t2"
          using h valid g Inr ne b unfolding final_products_def Let_def
          by (auto split: sum.splits prod.splits if_splits)
        with b get_product_details_batch_same [of w w' asins ?m]
        have b': "get_product_details_batch w' asins ?m = (r2, t2)" by simp
        show ?thesis
        proof (cases r2)
          case (Inl e)
          with Inr ne valid u g g' b b' show ?thesis by (simp add: final_products_def Let_def)
        next
          case prods: (Inr products)
          obtain kept t3 where rc: "reconcile w ?m (requested_category_id_str req) products
              = (kept, t3)"
            by (cases "reconcile w ?m (requested_category_id_str req) products")
          have t3: "list_all (same_answer w w') t3"
            using h valid g Inr ne b prods rc unfolding final_products_def Let_def
            by (auto split: if_splits)
          with rc reconcile_same [of w w' ?m "requested_category_id_str req" products]
          have rc': "reconcile w' ?m (requested_category_id_str req) products = (kept, t3)"
            by simp
          from prods Inr ne valid u g g' b b' rc rc' show ?thesis
            by (simp add: final_products_def Let_def)
        qed
      qed
    qed
  qed
qed

text \<open>
  Claim C9. The outcome of a request, with the order of its rows, their indices and the
  calls made, is a function of the request, the configured token, the upper-casing of the
  runtime and the answers to the calls that the request makes: two worlds that agree on
  these give the same outcome, whatever they answer to any other call. The model has no
  clock and no random source, as the endpoint has none.
\<close>

theorem analyze_seller_deterministic:
  assumes u: "unicode_upper w' = unicode_upper w"
    and k: "OPTISAGE_TOKEN w' = OPTISAGE_TOKEN w"
    and h: "list_all (same_answer w w') (snd (analyze_seller w req))"
  shows "analyze_seller w' req = analyze_seller w req"
proof -
  let ?m = "upper (unicode_upper w) (req_marketplace req)"
  obtain x t where fp: "final_products w req = (x, t)" by (cases "final_products w req")
  have t: "list_all (same_answer w w') t"
    using h fp unfolding analyze_seller_def Let_def
    by (auto split: sum.splits prod.splits)
  with fp final_products_same [OF u, of req] have fp': "final_products w' req = (x, t)" by simp
  show ?thesis
  proof (cases x)
    case (Inl f)
    with fp fp' show ?thesis by (simp add: analyze_seller_def Let_def)
  next
    case (Inr kept)
    obtain y t4 where c: "check_seller_eligibility w (OPTISAGE_TOKEN w) (req_seller_id req)
        (map asin kept) ?m = (y, t4)"
      by (cases "check_seller_eligibility w (OPTISAGE_TOKEN w) (req_seller_id req)
        (map asin kept) ?m")
    have "list_all (same_answer w w') t4"
      using h fp Inr c unfolding analyze_seller_def Let_def
      by (auto split: sum.splits)
    with c check_seller_eligibility_same [of w w' "OPTISAGE_TOKEN w" "req_seller_id req"
        "map asin kept" ?m]
    have c': "check_seller_eligibility w' (OPTISAGE_TOKEN w) (req_seller_id req)
        (map asin kept) ?m = (y, t4)" by simp
    from Inr fp fp' c c' u k show ?thesis by (simp add: analyze_seller_def Let_def)
  qed
qed

theorem analyze_seller_deterministic_witness:
  "analyze_seller picky_env (request ''US'' None)
     = analyze_seller (two_categories_env http_500) (request ''US'' None) \<and>
   query picky_env [] [] \<noteq> query (two_categories_env http_500) [] []"
proof -
  have u: "unicode_upper picky_env = unicode_upper (two_categories_env http_500)"
    by (simp add: picky_env_def)
  have k: "OPTISAGE_TOKEN picky_env = OPTISAGE_TOKEN (two_categories_env http_500)"
    by (simp add: picky_env_def)
  have h: "list_all (same_answer (two_categories_env http_500) picky_env)
      (snd (analyze_seller (two_categories_env http_500) (request ''US'' None)))"
    by (simp add: eval_defs two_categories_env_def picky_env_def)
  have d: "query picky_env [] [] \<noteq> query (two_categories_env http_500) [] []"
    by (simp add: picky_env_def two_categories_env_def demo_env_def ascii_def)
  from analyze_seller_deterministic [OF u k h] d show ?thesis by simp
qed


end
